theory Spec2Isabelle
  imports Complex_Main "HOL-Library.Word"
begin

section \<open>Data model\<close>

text \<open>
  \<^verbatim>\<open>core/game_states.py\<close>: the enumeration \<^verbatim>\<open>GameState\<close>, members in source order.
\<close>

datatype GameState = INITIALIZING | ON_MENU | IN_BATTLE | POST_GAME | STOPPED

text \<open>
  A two-dimensional numpy array: \<^verbatim>\<open>a.shape[0]\<close> rows, \<^verbatim>\<open>a.shape[1]\<close> columns and the
  element \<^verbatim>\<open>a[r, c]\<close>. A numpy array may have zero rows and still a positive number of
  columns (a crop can be of shape \<^verbatim>\<open>(0, 620)\<close>), so both extents are fields. Elements
  outside the extents are never read by the model.
\<close>

record 'a ndarray =
  shape0 :: nat
  shape1 :: nat
  px :: "nat \<Rightarrow> nat \<Rightarrow> 'a"

text \<open>A grayscale image holds 8-bit intensities, a frame holds 8-bit (B, G, R) triples.\<close>

type_synonym gray = "8 word ndarray"
type_synonym bgr = "(8 word \<times> 8 word \<times> 8 word) ndarray"

text \<open>\<^verbatim>\<open>a.size\<close>: the number of elements.\<close>

definition ndarray_size :: "'a ndarray \<Rightarrow> nat" where
  "ndarray_size a = shape0 a * shape1 a"

text \<open>
  Python's normalisation of one slice bound against a length \<^verbatim>\<open>n\<close> (step 1): a negative
  bound counts from the end, and the result is clipped to \<^verbatim>\<open>0..n\<close>.
\<close>

definition slice_bound :: "nat \<Rightarrow> int \<Rightarrow> nat" where
  "slice_bound n i = (if i < 0 then nat (max 0 (i + int n)) else min n (nat i))"

text \<open>
  \<^verbatim>\<open>a[r0:r1, c0:c1]\<close>. A slice whose normalised stop is not above its start is empty; the
  truncating subtraction on \<open>nat\<close> gives exactly that length \<open>0\<close>.
\<close>

definition crop :: "'a ndarray \<Rightarrow> int \<Rightarrow> int \<Rightarrow> int \<Rightarrow> int \<Rightarrow> 'a ndarray" where
  "crop a r0 r1 c0 c1 =
     (let rs = slice_bound (shape0 a) r0; re = slice_bound (shape0 a) r1;
          cs = slice_bound (shape1 a) c0; ce = slice_bound (shape1 a) c1
      in \<lparr>shape0 = re - rs, shape1 = ce - cs, px = (\<lambda>r c. px a (rs + r) (cs + c))\<rparr>)"

section \<open>The OpenCV calls\<close>

text \<open>
  OpenCV is an external library; its code is not part of the repository. Its pixel
  arithmetic (the luma conversion, the Gaussian kernel, the floating-point correlation
  score) is a parameter of the model: a record of three functions giving one output
  element each. What the model fixes is the contract the source relies on: the output
  extents, the order in which the best score is searched, and the \<^verbatim>\<open>cv2.error\<close> raised
  on arguments the library rejects. Scores are reals, and the thresholds 0.7, 0.8 and 0.85
  of the source are read as exact decimal fractions.
\<close>

datatype error = CvError

record cv2 =
  gray_px :: "bgr \<Rightarrow> nat \<Rightarrow> nat \<Rightarrow> 8 word"
  blur_px :: "gray \<Rightarrow> nat \<Rightarrow> nat \<Rightarrow> 8 word"
  ccoeff_normed :: "gray \<Rightarrow> gray \<Rightarrow> nat \<Rightarrow> nat \<Rightarrow> real"

text \<open>
  Modelled from the spec: \<^verbatim>\<open>cv2.cvtColor(src, cv2.COLOR_BGR2GRAY)\<close>, the conversion of the
  frame to grayscale. The result has the extents of \<^verbatim>\<open>src\<close>; image data that cannot be
  converted (an empty \<^verbatim>\<open>src\<close>) is an error that reaches the caller.
\<close>

definition cvtColor :: "cv2 \<Rightarrow> bgr \<Rightarrow> error + gray" where
  "cvtColor cv src =
     (if shape0 src = 0 \<or> shape1 src = 0 then Inl CvError
      else Inr \<lparr>shape0 = shape0 src, shape1 = shape1 src, px = gray_px cv src\<rparr>)"

text \<open>
  Modelled from the spec: \<^verbatim>\<open>cv2.GaussianBlur(src, (5, 5), 0)\<close>, the smoothing pass. The
  result has the extents of \<^verbatim>\<open>src\<close>.
\<close>

definition GaussianBlur :: "cv2 \<Rightarrow> gray \<Rightarrow> error + gray" where
  "GaussianBlur cv src =
     (if shape0 src = 0 \<or> shape1 src = 0 then Inl CvError
      else Inr \<lparr>shape0 = shape0 src, shape1 = shape1 src, px = blur_px cv src\<rparr>)"

text \<open>
  Modelled from the spec: \<^verbatim>\<open>cv2.matchTemplate(img, templ, cv2.TM_CCOEFF_NORMED)\<close>, one
  normalized cross-correlation score for every valid alignment of the template inside the
  image, as rows of a matrix with \<^verbatim>\<open>img.rows - templ.rows + 1\<close> rows and
  \<^verbatim>\<open>img.cols - templ.cols + 1\<close> columns; entry \<open>(y, x)\<close> is the score of the template with
  its top-left corner at column \<open>x\<close>, row \<open>y\<close>. The library requires a non-empty template
  no larger than the image and raises otherwise.
\<close>

definition matchTemplate :: "cv2 \<Rightarrow> gray \<Rightarrow> gray \<Rightarrow> error + real list list" where
  "matchTemplate cv img templ =
     (if shape0 templ = 0 \<or> shape1 templ = 0
         \<or> shape0 img < shape0 templ \<or> shape1 img < shape1 templ
      then Inl CvError
      else Inr (map (\<lambda>y. map (\<lambda>x. ccoeff_normed cv img templ x y)
                              [0..<shape1 img - shape1 templ + 1])
                    [0..<shape0 img - shape0 templ + 1]))"

text \<open>
  Modelled from the spec: \<^verbatim>\<open>cv2.minMaxLoc(src)\<close>, the least and the greatest element and
  their positions as points \<open>(x, y)\<close>. Ties are broken by the scan's first-maximum order:
  the matrix is scanned row by row, left to right, and a position replaces the current best
  only on a strict improvement, so among equal scores the first one scanned is reported.
\<close>

fun scan_row ::
  "(real \<Rightarrow> real \<Rightarrow> bool) \<Rightarrow> nat \<Rightarrow> nat \<Rightarrow> real list \<Rightarrow> real \<times> nat \<times> nat \<Rightarrow> real \<times> nat \<times> nat"
where
  "scan_row better y x [] best = best"
| "scan_row better y x (v # vs) best =
     scan_row better y (Suc x) vs (if better v (fst best) then (v, x, y) else best)"

fun scan_rows ::
  "(real \<Rightarrow> real \<Rightarrow> bool) \<Rightarrow> nat \<Rightarrow> real list list \<Rightarrow> real \<times> nat \<times> nat \<Rightarrow> real \<times> nat \<times> nat"
where
  "scan_rows better y [] best = best"
| "scan_rows better y (row # rows) best =
     scan_rows better (Suc y) rows (scan_row better y 0 row best)"

definition minMaxLoc ::
  "real list list \<Rightarrow> error + (real \<times> real \<times> (nat \<times> nat) \<times> (nat \<times> nat))"
where
  "minMaxLoc src =
     (case src of
        [] \<Rightarrow> Inl CvError
      | [] # _ \<Rightarrow> Inl CvError
      | (v # _) # _ \<Rightarrow>
          (let (min_val, min_loc) = scan_rows (\<lambda>a b. a < b) 0 src (v, 0, 0);
               (max_val, max_loc) = scan_rows (\<lambda>a b. b < a) 0 src (v, 0, 0)
           in Inr (min_val, max_val, min_loc, max_loc)))"

section \<open>The vision system\<close>

text \<open>
  \<^verbatim>\<open>VisionSystem._preprocess_image\<close>: grayscale conversion, then the blur. An exception of
  either call leaves the function.
\<close>

definition preprocess_image :: "cv2 \<Rightarrow> bgr \<Rightarrow> error + gray" where
  "preprocess_image cv image_np =
     (case cvtColor cv image_np of
        Inl e \<Rightarrow> Inl e
      | Inr gray_image \<Rightarrow> GaussianBlur cv gray_image)"

text \<open>
  \<^verbatim>\<open>VisionSystem._find_template\<close>. Either argument may be \<^verbatim>\<open>None\<close>. The result is
  \<open>Inr None\<close> for Python's \<^verbatim>\<open>None\<close>, \<open>Inr (Some (x, y))\<close> for a returned tuple and \<open>Inl e\<close>
  for an exception raised by a library call. \<^verbatim>\<open>template.shape[::-1]\<close> is
  \<open>(width, height)\<close>.
\<close>

definition find_template ::
  "cv2 \<Rightarrow> gray option \<Rightarrow> gray option \<Rightarrow> real \<Rightarrow> error + (int \<times> int) option"
where
  "find_template cv screen_image_gray template threshold =
     (case template of
        None \<Rightarrow> Inr None
      | Some templ \<Rightarrow>
     (case screen_image_gray of
        None \<Rightarrow> Inr None
      | Some screen \<Rightarrow>
          if shape0 templ > shape0 screen \<or> shape1 templ > shape1 screen then Inr None
          else
            (case matchTemplate cv screen templ of
               Inl e \<Rightarrow> Inl e
             | Inr res \<Rightarrow>
            (case minMaxLoc res of
               Inl e \<Rightarrow> Inl e
             | Inr (min_val, max_val, min_loc, max_loc) \<Rightarrow>
                 if max_val \<ge> threshold then
                   (let template_width = int (shape1 templ);
                        template_height = int (shape0 templ);
                        center_x = int (fst max_loc) + template_width div 2;
                        center_y = int (snd max_loc) + template_height div 2
                    in Inr (Some (center_x, center_y)))
                 else Inr None))))"

text \<open>
  The fields of \<^verbatim>\<open>VisionSystem\<close> that the detection methods read or write. The three
  template dictionaries keep their insertion order, which is the order \<^verbatim>\<open>.items()\<close>
  iterates in; \<^verbatim>\<open>.get(key)\<close> is \<open>map_of\<close>. A region of interest is
  \<open>(left, top, right, bottom)\<close>.
\<close>

type_synonym roi = "int \<times> int \<times> int \<times> int"

record VisionSystem =
  latest_screenshot :: "bgr option"
  card_templates :: "(string \<times> gray) list"
  ui_templates :: "(string \<times> gray) list"
  enemy_unit_templates :: "(string \<times> gray) list"
  battle_analysis_counter :: nat
  hand_roi :: roi
  battlefield_roi :: roi
  enemy_field_roi :: roi

text \<open>
  \<^verbatim>\<open>VisionSystem.__init__\<close>, with the three dictionaries that \<^verbatim>\<open>_load_templates\<close> fills
  from disk given as arguments. \<^verbatim>\<open>//\<close> on Python integers is \<open>div\<close> on \<open>int\<close>.
\<close>

definition VisionSystem_init ::
  "(string \<times> gray) list \<Rightarrow> (string \<times> gray) list \<Rightarrow> (string \<times> gray) list \<Rightarrow> VisionSystem"
where
  "VisionSystem_init cards ui enemy_units =
     (let battlefield = (0, 150, 720, 1000) :: roi
      in \<lparr>latest_screenshot = None,
          card_templates = cards,
          ui_templates = ui,
          enemy_unit_templates = enemy_units,
          battle_analysis_counter = 0,
          hand_roi = (50, 1050, 670, 1230),
          battlefield_roi = battlefield,
          enemy_field_roi =
            (case battlefield of
               (b0, b1, b2, b3) \<Rightarrow> (b0, b1, b2, b1 + (b3 - b1) div 2 + 50))\<rparr>)"

text \<open>
  One UI check of \<^verbatim>\<open>get_current_game_state\<close>: the template is looked up by name and,
  when present, searched in the preprocessed screen at threshold 0.7. The source repeats
  this block four times; it tests the returned position with \<^verbatim>\<open>if pos:\<close>, and a
  two-element tuple is true whatever its components, so the test succeeds exactly when a
  position was returned.
\<close>

definition detect_ui ::
  "cv2 \<Rightarrow> VisionSystem \<Rightarrow> gray \<Rightarrow> string \<Rightarrow> error + (int \<times> int) option"
where
  "detect_ui cv self processed_screen ui_name =
     (case map_of (ui_templates self) ui_name of
        None \<Rightarrow> Inr None
      | Some ui_template \<Rightarrow>
          find_template cv (Some processed_screen) (Some ui_template) (7 / 10))"

text \<open>
  \<^verbatim>\<open>VisionSystem.get_current_game_state\<close>. The frame is stored before anything can
  raise, so the updated object is returned beside the result in every case.
\<close>

definition get_current_game_state ::
  "cv2 \<Rightarrow> VisionSystem \<Rightarrow> bgr \<Rightarrow> (error + GameState) \<times> VisionSystem"
where
  "get_current_game_state cv self image_np =
     (let self' = self\<lparr>latest_screenshot := Some image_np\<rparr>
      in ((case preprocess_image cv image_np of
             Inl e \<Rightarrow> Inl e
           | Inr processed_screen \<Rightarrow>
          (case detect_ui cv self' processed_screen ''Battle Indicator'' of
             Inl e \<Rightarrow> Inl e
           | Inr (Some battle_indicator_pos) \<Rightarrow> Inr IN_BATTLE
           | Inr None \<Rightarrow>
          (case detect_ui cv self' processed_screen ''Play Button'' of
             Inl e \<Rightarrow> Inl e
           | Inr (Some play_button_pos) \<Rightarrow> Inr ON_MENU
           | Inr None \<Rightarrow>
          (case detect_ui cv self' processed_screen ''OK Button'' of
             Inl e \<Rightarrow> Inl e
           | Inr (Some ok_button_pos) \<Rightarrow> Inr POST_GAME
           | Inr None \<Rightarrow>
          (case detect_ui cv self' processed_screen ''Home Button'' of
             Inl e \<Rightarrow> Inl e
           | Inr (Some home_button_pos) \<Rightarrow> Inr ON_MENU
           | Inr None \<Rightarrow> Inr IN_BATTLE))))), self'))"

text \<open>The dictionaries that \<^verbatim>\<open>analyze_battlefield\<close> builds.\<close>

record card_info =
  card_name :: string
  card_position :: "int \<times> int"
  elixir_cost :: nat
  card_type :: string

record unit_info =
  unit_name :: string
  unit_position :: "int \<times> int"
  health :: nat
  unit_type :: string

record tower_health =
  king :: nat
  left_tower :: nat
  right_tower :: nat

record game_info =
  player_units :: "unit_info list"
  opponent_units :: "unit_info list"
  cards_in_hand :: "card_info list"
  current_elixir :: real
  player_tower_health :: tower_health
  opponent_tower_health :: tower_health
  game_time_seconds :: nat

text \<open>
  The loop over \<^verbatim>\<open>self.card_templates.items()\<close>: every template is searched in the hand
  crop at threshold 0.85 and a hit is appended with the ROI's left and top added.
\<close>

fun detect_cards ::
  "cv2 \<Rightarrow> gray \<Rightarrow> int \<Rightarrow> int \<Rightarrow> (string \<times> gray) list \<Rightarrow> card_info list
   \<Rightarrow> error + card_info list"
where
  "detect_cards cv roi_image_hand hand_x_start hand_y_start [] detected = Inr detected"
| "detect_cards cv roi_image_hand hand_x_start hand_y_start ((name, template) # rest) detected =
     (case find_template cv (Some roi_image_hand) (Some template) (85 / 100) of
        Inl e \<Rightarrow> Inl e
      | Inr None \<Rightarrow> detect_cards cv roi_image_hand hand_x_start hand_y_start rest detected
      | Inr (Some found_pos_in_roi) \<Rightarrow>
          (let full_screen_x = fst found_pos_in_roi + hand_x_start;
               full_screen_y = snd found_pos_in_roi + hand_y_start
           in detect_cards cv roi_image_hand hand_x_start hand_y_start rest
                (detected @ [\<lparr>card_name = name,
                               card_position = (full_screen_x, full_screen_y),
                               elixir_cost = 3,
                               card_type = ''unit''\<rparr>])))"

text \<open>The loop over \<^verbatim>\<open>self.enemy_unit_templates.items()\<close>, on the enemy-field crop.\<close>

fun detect_units ::
  "cv2 \<Rightarrow> gray \<Rightarrow> int \<Rightarrow> int \<Rightarrow> (string \<times> gray) list \<Rightarrow> unit_info list
   \<Rightarrow> error + unit_info list"
where
  "detect_units cv roi_image_enemy_field enemy_field_x_start enemy_field_y_start [] detected =
     Inr detected"
| "detect_units cv roi_image_enemy_field enemy_field_x_start enemy_field_y_start
     ((name, template) # rest) detected =
     (case find_template cv (Some roi_image_enemy_field) (Some template) (85 / 100) of
        Inl e \<Rightarrow> Inl e
      | Inr None \<Rightarrow>
          detect_units cv roi_image_enemy_field enemy_field_x_start enemy_field_y_start rest
            detected
      | Inr (Some found_pos_in_roi) \<Rightarrow>
          (let full_screen_x = fst found_pos_in_roi + enemy_field_x_start;
               full_screen_y = snd found_pos_in_roi + enemy_field_y_start
           in detect_units cv roi_image_enemy_field enemy_field_x_start enemy_field_y_start rest
                (detected @ [\<lparr>unit_name = name,
                               unit_position = (full_screen_x, full_screen_y),
                               health = 100,
                               unit_type = ''unit''\<rparr>])))"

text \<open>The two crops of the preprocessed image, with the clamping the source writes.\<close>

definition roi_crop :: "gray \<Rightarrow> roi \<Rightarrow> gray" where
  "roi_crop processed_image r =
     (case r of
        (x_start, y_start, x_end, y_end) \<Rightarrow>
          crop processed_image
            (max 0 y_start) (min (int (shape0 processed_image)) y_end)
            (max 0 x_start) (min (int (shape1 processed_image)) x_end))"

text \<open>
  \<^verbatim>\<open>VisionSystem.analyze_battlefield\<close>. The debug overlays written to disk are a side
  channel and are not part of the model. The remaining fields of the result are the
  constants of the source.
\<close>

definition analyze_battlefield ::
  "cv2 \<Rightarrow> VisionSystem \<Rightarrow> bgr \<Rightarrow> (error + game_info) \<times> VisionSystem"
where
  "analyze_battlefield cv self image_np =
     (let self' = self\<lparr>latest_screenshot := Some image_np\<rparr>
      in ((case preprocess_image cv image_np of
             Inl e \<Rightarrow> Inl e
           | Inr processed_image \<Rightarrow>
          (let roi_image_hand = roi_crop processed_image (hand_roi self')
           in
          (case (if ndarray_size roi_image_hand = 0 then Inr []
                 else detect_cards cv roi_image_hand
                        (fst (hand_roi self')) (fst (snd (hand_roi self')))
                        (card_templates self') []) of
             Inl e \<Rightarrow> Inl e
           | Inr detected_cards_in_hand \<Rightarrow>
          (let roi_image_enemy_field = roi_crop processed_image (enemy_field_roi self')
           in
          (case (if ndarray_size roi_image_enemy_field = 0 then Inr []
                 else detect_units cv roi_image_enemy_field
                        (fst (enemy_field_roi self')) (fst (snd (enemy_field_roi self')))
                        (enemy_unit_templates self') []) of
             Inl e \<Rightarrow> Inl e
           | Inr detected_opponent_units \<Rightarrow>
               Inr \<lparr>player_units = [],
                    opponent_units = detected_opponent_units,
                    cards_in_hand = detected_cards_in_hand,
                    current_elixir = 10,
                    player_tower_health = \<lparr>king = 3000, left_tower = 2000, right_tower = 2000\<rparr>,
                    opponent_tower_health = \<lparr>king = 3000, left_tower = 2000, right_tower = 2000\<rparr>,
                    game_time_seconds = 60\<rparr>))))), self'))"

text \<open>
  The two string methods of the resolver. A Python \<^verbatim>\<open>str\<close> is modelled by its bytes in
  UTF-8, where the underscore and the space are single bytes that occur inside no longer
  sequence; so \<^verbatim>\<open>str.replace\<close> for a one-character ASCII pattern and replacement is a map
  over the bytes. \<^verbatim>\<open>str.title\<close> cases every letter of the Unicode character database of
  the Python runtime, which is not part of the repository: it is a parameter \<open>title\<close> of
  the resolver.
\<close>

definition str_replace :: "char \<Rightarrow> char \<Rightarrow> string \<Rightarrow> string" where
  "str_replace old new s = map (\<lambda>c. if c = old then new else c) s"

text \<open>
  \<open>ascii_title\<close> is \<^verbatim>\<open>str.title\<close> on ASCII text, for the concrete inputs below: a letter that
  follows a letter is lowered, any other letter is raised, and every other character is
  kept and ends the word. It says nothing about text outside ASCII.
\<close>

definition lower_letters :: string where
  "lower_letters = ''abcdefghijklmnopqrstuvwxyz''"

definition upper_letters :: string where
  "upper_letters = ''ABCDEFGHIJKLMNOPQRSTUVWXYZ''"

definition is_cased :: "char \<Rightarrow> bool" where
  "is_cased c = (c \<in> set lower_letters \<or> c \<in> set upper_letters)"

definition to_upper :: "char \<Rightarrow> char" where
  "to_upper c = (case map_of (zip lower_letters upper_letters) c of Some u \<Rightarrow> u | None \<Rightarrow> c)"

definition to_lower :: "char \<Rightarrow> char" where
  "to_lower c = (case map_of (zip upper_letters lower_letters) c of Some l \<Rightarrow> l | None \<Rightarrow> c)"

fun title_from :: "bool \<Rightarrow> string \<Rightarrow> string" where
  "title_from previous_is_cased [] = []"
| "title_from previous_is_cased (c # cs) =
     (if previous_is_cased then to_lower c else to_upper c) # title_from (is_cased c) cs"

definition ascii_title :: "string \<Rightarrow> string" where
  "ascii_title s = title_from False s"

text \<open>
  \<^verbatim>\<open>VisionSystem.get_card_coordinates\<close>, with \<^verbatim>\<open>str.title\<close> as the parameter \<open>title\<close>. It
  reads the stored frame and writes nothing.
\<close>

definition get_card_coordinates ::
  "cv2 \<Rightarrow> (string \<Rightarrow> string) \<Rightarrow> VisionSystem \<Rightarrow> string \<Rightarrow> error + (int \<times> int) option"
where
  "get_card_coordinates cv title self name =
     (case latest_screenshot self of
        None \<Rightarrow> Inr None
      | Some shot \<Rightarrow>
          (let template_key = title (str_replace (CHR ''_'') (CHR '' '') name)
           in
          (case map_of (card_templates self) template_key of
             None \<Rightarrow> Inr None
           | Some card_template \<Rightarrow>
          (case preprocess_image cv shot of
             Inl e \<Rightarrow> Inl e
           | Inr screen_gray \<Rightarrow>
          (case find_template cv (Some screen_gray) (Some card_template) (8 / 10) of
             Inl e \<Rightarrow> Inl e
           | Inr (Some found_location) \<Rightarrow> Inr (Some found_location)
           | Inr None \<Rightarrow> Inr None)))))"

section \<open>The specification's reading of the components\<close>

text \<open>
  The Phase Classifier as the specification words it: an ordered list of rules, each a UI
  template name and the phase it stands for; the first rule whose template matches
  decides, and the fallback is in-battle.
\<close>

definition phase_rules :: "(string \<times> GameState) list" where
  "phase_rules =
     [(''Battle Indicator'', IN_BATTLE), (''Play Button'', ON_MENU),
      (''OK Button'', POST_GAME), (''Home Button'', ON_MENU)]"

fun first_match :: "(string \<Rightarrow> bool) \<Rightarrow> (string \<times> GameState) list \<Rightarrow> GameState" where
  "first_match matches [] = IN_BATTLE"
| "first_match matches ((ui_name, phase) # rules) =
     (if matches ui_name then phase else first_match matches rules)"

text \<open>A UI template matches a frame when it is in the store and the Region Matcher finds it
  in the preprocessed frame at threshold 0.7.\<close>

definition ui_matches :: "cv2 \<Rightarrow> VisionSystem \<Rightarrow> bgr \<Rightarrow> string \<Rightarrow> bool" where
  "ui_matches cv self frame ui_name =
     (case preprocess_image cv frame of
        Inl e \<Rightarrow> False
      | Inr processed \<Rightarrow>
          (case map_of (ui_templates self) ui_name of
             None \<Rightarrow> False
           | Some t \<Rightarrow>
               (case find_template cv (Some processed) (Some t) (7 / 10) of
                  Inr (Some p) \<Rightarrow> True
                | _ \<Rightarrow> False)))"

text \<open>
  The alignments of a template inside a search image, the row-by-row scan order on them,
  and an exact copy of the template at an alignment.
\<close>

definition valid_alignment :: "gray \<Rightarrow> gray \<Rightarrow> nat \<Rightarrow> nat \<Rightarrow> bool" where
  "valid_alignment S T x y = (x + shape1 T \<le> shape1 S \<and> y + shape0 T \<le> shape0 S)"

definition scanned_before :: "nat \<Rightarrow> nat \<Rightarrow> nat \<Rightarrow> nat \<Rightarrow> bool" where
  "scanned_before x y x' y' = (y < y' \<or> (y = y' \<and> x < x'))"

definition exact_copy :: "gray \<Rightarrow> gray \<Rightarrow> nat \<Rightarrow> nat \<Rightarrow> bool" where
  "exact_copy S T ox oy =
     (valid_alignment S T ox oy
      \<and> list_all (\<lambda>r. list_all (\<lambda>c. px S (oy + r) (ox + c) = px T r c) [0..<shape1 T])
                 [0..<shape0 T])"

text \<open>
  Modelled from the spec: the contract of the normalized cross-correlation score that the
  library computes, a similarity score that is at most 1.0 and is 1.0 on an exact match.
\<close>

definition normalized_score :: "cv2 \<Rightarrow> bool" where
  "normalized_score cv =
     (\<forall>S T x y. valid_alignment S T x y
        \<longrightarrow> ccoeff_normed cv S T x y \<le> 1
            \<and> (exact_copy S T x y \<longrightarrow> ccoeff_normed cv S T x y = 1))"

text \<open>Images and stores without an empty template, as image decoding produces them.\<close>

definition nonempty :: "'a ndarray \<Rightarrow> bool" where
  "nonempty a = (0 < shape0 a \<and> 0 < shape1 a)"

definition templates_ok :: "(string \<times> gray) list \<Rightarrow> bool" where
  "templates_ok store = list_all (\<lambda>(name, t). nonempty t) store"

section \<open>A reference instance of the library parameters\<close>

text \<open>
  Modelled from the spec: the pixel arithmetic of the three OpenCV calls, for evaluating
  the model on concrete images. The grayscale conversion uses the luma weights in
  thousandths, the blur is reduced to its centre tap, and the normalized cross-correlation
  score is the coefficient of the OpenCV documentation,
  \<open>\<Sum> T' I' / sqrt (\<Sum> T'\<^sup>2 * \<Sum> I'\<^sup>2)\<close> with \<open>T'\<close> and \<open>I'\<close> the template and the window
  minus their means, in exact real arithmetic. Where the denominator is zero the
  library's conventions apply: a constant template scores 1 everywhere, and otherwise a
  constant window scores 0. The theorems below hold for every instance of the
  parameters; this one serves the concrete inputs.
\<close>

definition window_sum :: "nat \<Rightarrow> nat \<Rightarrow> (nat \<Rightarrow> nat \<Rightarrow> real) \<Rightarrow> real" where
  "window_sum h w f = sum_list (map (\<lambda>r. sum_list (map (\<lambda>c. f r c) [0..<w])) [0..<h])"

definition ncc :: "gray \<Rightarrow> gray \<Rightarrow> nat \<Rightarrow> nat \<Rightarrow> real" where
  "ncc img templ x y =
     (let h = shape0 templ; w = shape1 templ; n = real (h * w);
          T = (\<lambda>r c. real (unat (px templ r c)));
          I = (\<lambda>r c. real (unat (px img (y + r) (x + c))));
          tm = window_sum h w T / n;
          im = window_sum h w I / n;
          num = window_sum h w (\<lambda>r c. (T r c - tm) * (I r c - im));
          tt = window_sum h w (\<lambda>r c. (T r c - tm)\<^sup>2);
          ii = window_sum h w (\<lambda>r c. (I r c - im)\<^sup>2)
      in if tt = 0 then 1 else if ii = 0 then 0 else num / sqrt (tt * ii))"

definition luma :: "bgr \<Rightarrow> nat \<Rightarrow> nat \<Rightarrow> 8 word" where
  "luma src r c =
     (case px src r c of
        (b, g, r') \<Rightarrow> word_of_nat ((114 * unat b + 587 * unat g + 299 * unat r' + 500) div 1000))"

definition cv_ref :: cv2 where
  "cv_ref = \<lparr>gray_px = luma, blur_px = px, ccoeff_normed = ncc\<rparr>"

text \<open>Images written as lists of rows, for the concrete inputs below.\<close>

definition of_rows :: "'a \<Rightarrow> 'a list list \<Rightarrow> 'a ndarray" where
  "of_rows d rows =
     \<lparr>shape0 = length rows,
      shape1 = (case rows of [] \<Rightarrow> 0 | r # _ \<Rightarrow> length r),
      px = (\<lambda>r c. if r < length rows \<and> c < length (rows ! r) then rows ! r ! c else d)\<rparr>"

definition gray_rows :: "8 word list list \<Rightarrow> gray" where
  "gray_rows rows = of_rows 0 rows"

definition frame_rows :: "8 word list list \<Rightarrow> bgr" where
  "frame_rows rows = of_rows (0, 0, 0) (map (map (\<lambda>v. (v, v, v))) rows)"

text \<open>
  A small template store under the names the loader uses, and frames for it: one showing
  both the battle indicator and the play button, one showing the play button only, one
  showing the ok button only, and a blank one.
\<close>

definition example_ui :: "(string \<times> gray) list" where
  "example_ui =
     [(''Play Button'', gray_rows [[2, 0]]),
      (''Battle Indicator'', gray_rows [[0, 2]]),
      (''OK Button'', gray_rows [[0], [2]]),
      (''Home Button'', gray_rows [[2], [0]]),
      (''Settings Icon'', gray_rows [[7]])]"

definition example_cards :: "(string \<times> gray) list" where
  "example_cards = [(''Knight'', gray_rows [[0, 2]]), (''Fireball'', gray_rows [[2, 0]])]"

definition example_units :: "(string \<times> gray) list" where
  "example_units = [(''Giant'', gray_rows [[2, 0]])]"

definition example_vs :: VisionSystem where
  "example_vs = VisionSystem_init example_cards example_ui example_units"

definition both_frame :: bgr where
  "both_frame = frame_rows [[0, 2, 0]]"

definition menu_frame :: bgr where
  "menu_frame = frame_rows [[2, 0]]"

definition post_frame :: bgr where
  "post_frame = frame_rows [[0], [2]]"

definition blank_frame :: bgr where
  "blank_frame = frame_rows [[0, 0, 0]]"

text \<open>
  The Scene Analyzer as the specification words it: every template of a namespace, in
  iteration order, is searched in the cropped region at threshold 0.85, and each match
  becomes one entry whose position is the ROI-local match with the ROI's left added to
  \<open>x\<close> and its top added to \<open>y\<close>.
\<close>

definition roi_left :: "roi \<Rightarrow> int" where
  "roi_left r = fst r"

definition roi_top :: "roi \<Rightarrow> int" where
  "roi_top r = fst (snd r)"

definition remapped_cards ::
  "cv2 \<Rightarrow> gray \<Rightarrow> roi \<Rightarrow> (string \<times> gray) list \<Rightarrow> card_info list"
where
  "remapped_cards cv roi_image r store =
     List.map_filter
       (\<lambda>(name, t).
          case find_template cv (Some roi_image) (Some t) (85 / 100) of
            Inr (Some local) \<Rightarrow>
              Some \<lparr>card_name = name,
                    card_position = (fst local + roi_left r, snd local + roi_top r),
                    elixir_cost = 3, card_type = ''unit''\<rparr>
          | _ \<Rightarrow> None)
       store"

definition remapped_units ::
  "cv2 \<Rightarrow> gray \<Rightarrow> roi \<Rightarrow> (string \<times> gray) list \<Rightarrow> unit_info list"
where
  "remapped_units cv roi_image r store =
     List.map_filter
       (\<lambda>(name, t).
          case find_template cv (Some roi_image) (Some t) (85 / 100) of
            Inr (Some local) \<Rightarrow>
              Some \<lparr>unit_name = name,
                    unit_position = (fst local + roi_left r, snd local + roi_top r),
                    health = 100, unit_type = ''unit''\<rparr>
          | _ \<Rightarrow> None)
       store"

text \<open>
  Frames given by their few non-black pixels, and the concrete inputs of the analyzer, the
  resolver and the matcher: a frame whose hand region shows the Knight template, the black
  960 x 540 frame the capture layer returns on failure, and search images holding one and
  two copies of a two-pixel template. The preprocessed images are those of the reference
  instance.
\<close>

definition sparse_frame :: "nat \<Rightarrow> nat \<Rightarrow> ((nat \<times> nat) \<times> 8 word) list \<Rightarrow> bgr" where
  "sparse_frame h w dots =
     \<lparr>shape0 = h, shape1 = w,
      px = (\<lambda>r c. case map_of dots (r, c) of Some v \<Rightarrow> (v, v, v) | None \<Rightarrow> (0, 0, 0))\<rparr>"

definition hand_frame :: bgr where
  "hand_frame = sparse_frame 1051 52 [((1050, 51), 2), ((150, 0), 2)]"

definition hand_vs :: VisionSystem where
  "hand_vs = example_vs\<lparr>enemy_field_roi := (0, 150, 2, 151)\<rparr>"

definition dummy_frame :: bgr where
  "dummy_frame = sparse_frame 960 540 []"

definition resolver_cards :: "(string \<times> gray) list" where
  "resolver_cards = [(''Knight'', gray_rows [[0, 2]]), (''Mini Pekka'', gray_rows [[2, 0]])]"

definition shot_vs :: VisionSystem where
  "shot_vs = (VisionSystem_init resolver_cards example_ui [])\<lparr>latest_screenshot := Some both_frame\<rparr>"

definition hand_processed :: gray where
  "hand_processed = \<lparr>shape0 = 1051, shape1 = 52, px = luma hand_frame\<rparr>"

definition dummy_processed :: gray where
  "dummy_processed = \<lparr>shape0 = 960, shape1 = 540, px = luma dummy_frame\<rparr>"

definition both_processed :: gray where
  "both_processed = \<lparr>shape0 = 1, shape1 = 3, px = luma both_frame\<rparr>"

definition two_copies :: gray where
  "two_copies = gray_rows [[0, 2, 0, 2]]"

definition one_copy :: gray where
  "one_copy = gray_rows [[2, 0, 2]]"

definition stripe :: gray where
  "stripe = gray_rows [[0, 2]]"

section \<open>Totality of the library calls on well-formed images\<close>

lemma preprocess_image_nonempty:
  "nonempty frame \<Longrightarrow>
   preprocess_image cv frame =
     Inr \<lparr>shape0 = shape0 frame, shape1 = shape1 frame,
          px = blur_px cv \<lparr>shape0 = shape0 frame, shape1 = shape1 frame, px = gray_px cv frame\<rparr>\<rparr>"
  by (simp add: preprocess_image_def cvtColor_def GaussianBlur_def nonempty_def)

lemma preprocess_image_shape:
  "preprocess_image cv frame = Inr g \<Longrightarrow>
   shape0 g = shape0 frame \<and> shape1 g = shape1 frame \<and> nonempty frame"
  by (auto simp: preprocess_image_def cvtColor_def GaussianBlur_def nonempty_def
      split: if_splits sum.splits)

lemma minMaxLoc_nonempty:
  "\<exists>r. minMaxLoc (map (\<lambda>y. map (f y) [0..<Suc n]) [0..<Suc m]) = Inr r"
  by (simp add: minMaxLoc_def upt_conv_Cons split_beta del: upt_Suc)

lemma find_template_total:
  assumes "nonempty T"
  shows "\<exists>r. find_template cv S (Some T) threshold = Inr r"
proof (cases S)
  case None
  then show ?thesis by (simp add: find_template_def)
next
  case (Some screen)
  show ?thesis
  proof (cases "shape0 T > shape0 screen \<or> shape1 T > shape1 screen")
    case True
    then show ?thesis using Some by (simp add: find_template_def)
  next
    case False
    obtain r where "minMaxLoc (map (\<lambda>y. map (\<lambda>x. ccoeff_normed cv screen T x y)
                              [0..<Suc (shape1 screen - shape1 T)])
                    [0..<Suc (shape0 screen - shape0 T)]) = Inr r"
      using minMaxLoc_nonempty [of "\<lambda>y x. ccoeff_normed cv screen T x y"] ..
    then show ?thesis using Some False assms
      by (auto simp: find_template_def matchTemplate_def nonempty_def Let_def split: prod.splits)
  qed
qed

lemma templates_ok_lookup:
  "templates_ok store \<Longrightarrow> map_of store name = Some t \<Longrightarrow> nonempty t"
  by (auto simp: templates_ok_def list_all_iff dest!: map_of_SomeD)

text \<open>Unfolding rules that evaluate the model on the concrete inputs.\<close>

lemmas eval_defs =
  find_template_def matchTemplate_def minMaxLoc_def cv_ref_def ncc_def window_sum_def
  gray_rows_def frame_rows_def of_rows_def upt_rec Let_def luma_def
  preprocess_image_def cvtColor_def GaussianBlur_def
  example_vs_def example_ui_def example_cards_def example_units_def VisionSystem_init_def
  nonempty_def templates_ok_def ui_matches_def both_frame_def blank_frame_def

lemmas eval_more =
  eval_defs hand_frame_def hand_vs_def dummy_frame_def sparse_frame_def shot_vs_def
  roi_crop_def crop_def slice_bound_def ndarray_size_def
  remapped_cards_def remapped_units_def roi_left_def roi_top_def

lemmas str_defs = ascii_title_def str_replace_def to_upper_def to_lower_def is_cased_def
  lower_letters_def upper_letters_def

lemmas c1_defs = two_copies_def one_copy_def stripe_def exact_copy_def valid_alignment_def
  scanned_before_def

text \<open>
  The reference score meets the contract: by the Cauchy-Schwarz inequality on the window
  sums it is at most 1, and on an exact copy of the template it is 1.
\<close>

lemma window_sum_cong:
  assumes "\<And>r c. r < h \<Longrightarrow> c < w \<Longrightarrow> f r c = g r c"
  shows "window_sum h w f = window_sum h w g"
proof -
  have inner: "map (\<lambda>c. f r c) [0..<w] = map (\<lambda>c. g r c) [0..<w]" if "r < h" for r
    by (rule map_cong) (simp_all add: assms that)
  have outer: "map (\<lambda>r. sum_list (map (\<lambda>c. f r c) [0..<w])) [0..<h]
      = map (\<lambda>r. sum_list (map (\<lambda>c. g r c) [0..<w])) [0..<h]"
    by (rule map_cong) (simp_all add: inner)
  show ?thesis
    unfolding window_sum_def by (rule arg_cong [where f = sum_list]) (rule outer)
qed

lemma window_sum_add:
  "window_sum h w (\<lambda>r c. f r c + g r c) = window_sum h w f + window_sum h w g"
  by (simp add: window_sum_def sum_list_addf)

lemma window_sum_cmult:
  "window_sum h w (\<lambda>r c. k * f r c) = k * window_sum h w f"
  by (simp add: window_sum_def sum_list_const_mult)

lemma window_sum_nonneg:
  assumes "\<And>r c. 0 \<le> f r c"
  shows "0 \<le> window_sum h w f"
  unfolding window_sum_def by (intro sum_list_nonneg) (auto intro!: sum_list_nonneg assms)

lemma window_sum_cauchy_schwarz:
  assumes pos: "0 < window_sum h w (\<lambda>r c. (b r c)\<^sup>2)"
  shows "(window_sum h w (\<lambda>r c. a r c * b r c))\<^sup>2
         \<le> window_sum h w (\<lambda>r c. (a r c)\<^sup>2) * window_sum h w (\<lambda>r c. (b r c)\<^sup>2)"
proof -
  let ?A = "window_sum h w (\<lambda>r c. (a r c)\<^sup>2)"
  let ?B = "window_sum h w (\<lambda>r c. (b r c)\<^sup>2)"
  let ?C = "window_sum h w (\<lambda>r c. a r c * b r c)"
  have "0 \<le> window_sum h w (\<lambda>r c. (?B * a r c - ?C * b r c)\<^sup>2)"
    by (rule window_sum_nonneg) simp
  also have "(\<lambda>r c. (?B * a r c - ?C * b r c)\<^sup>2)
      = (\<lambda>r c. ?B\<^sup>2 * (a r c)\<^sup>2 + ((- (2 * ?B * ?C)) * (a r c * b r c) + ?C\<^sup>2 * (b r c)\<^sup>2))"
    by (intro ext) (simp add: power2_eq_square algebra_simps)
  also have "window_sum h w \<dots> = ?B\<^sup>2 * ?A + ((- (2 * ?B * ?C)) * ?C + ?C\<^sup>2 * ?B)"
    by (simp only: window_sum_add window_sum_cmult)
  also have "\<dots> = ?B * (?A * ?B - ?C\<^sup>2)"
    by (simp add: power2_eq_square algebra_simps)
  finally have "0 \<le> ?B * (?A * ?B - ?C\<^sup>2)" .
  with pos have "0 \<le> ?A * ?B - ?C\<^sup>2"
    by (simp add: zero_le_mult_iff)
  then show ?thesis by simp
qed

lemma ncc_le_1: "ncc S T x y \<le> 1"
proof -
  let ?h = "shape0 T" and ?w = "shape1 T"
  let ?T = "\<lambda>r c. real (unat (px T r c))"
  let ?I = "\<lambda>r c. real (unat (px S (y + r) (x + c)))"
  let ?tm = "window_sum ?h ?w ?T / real (?h * ?w)"
  let ?im = "window_sum ?h ?w ?I / real (?h * ?w)"
  let ?num = "window_sum ?h ?w (\<lambda>r c. (?T r c - ?tm) * (?I r c - ?im))"
  let ?tt = "window_sum ?h ?w (\<lambda>r c. (?T r c - ?tm)\<^sup>2)"
  let ?ii = "window_sum ?h ?w (\<lambda>r c. (?I r c - ?im)\<^sup>2)"
  have unfold: "ncc S T x y
      = (if ?tt = 0 then 1 else if ?ii = 0 then 0 else ?num / sqrt (?tt * ?ii))"
    unfolding ncc_def Let_def ..
  have tt0: "0 \<le> ?tt" and ii0: "0 \<le> ?ii"
    by (rule window_sum_nonneg, simp)+
  show ?thesis
  proof (cases "?tt = 0 \<or> ?ii = 0")
    case True
    then show ?thesis unfolding unfold by auto
  next
    case False
    with tt0 ii0 have tt: "0 < ?tt" and ii: "0 < ?ii" by auto
    have "?num\<^sup>2 \<le> ?tt * ?ii"
      by (rule window_sum_cauchy_schwarz [OF ii])
    then have "?num \<le> sqrt (?tt * ?ii)" by (rule real_le_rsqrt)
    moreover have "0 < sqrt (?tt * ?ii)" using tt ii by simp
    ultimately have "?num / sqrt (?tt * ?ii) \<le> 1" by simp
    then show ?thesis unfolding unfold using False by simp
  qed
qed

lemma ncc_exact_copy:
  assumes copy: "exact_copy S T ox oy"
  shows "ncc S T ox oy = 1"
proof -
  let ?h = "shape0 T" and ?w = "shape1 T"
  let ?T = "\<lambda>r c. real (unat (px T r c))"
  let ?I = "\<lambda>r c. real (unat (px S (oy + r) (ox + c)))"
  have same: "?I r c = ?T r c" if "r < ?h" "c < ?w" for r c
    using copy that by (simp add: exact_copy_def list_all_iff)
  have m: "window_sum ?h ?w ?I = window_sum ?h ?w ?T"
    by (rule window_sum_cong) (rule same)
  let ?tm = "window_sum ?h ?w ?T / real (?h * ?w)"
  let ?tt = "window_sum ?h ?w (\<lambda>r c. (?T r c - ?tm)\<^sup>2)"
  have num: "window_sum ?h ?w (\<lambda>r c. (?T r c - ?tm) * (?I r c - ?tm)) = ?tt"
  proof (rule window_sum_cong)
    fix r c assume "r < ?h" "c < ?w"
    from same [OF this] show "(?T r c - ?tm) * (?I r c - ?tm) = (?T r c - ?tm)\<^sup>2"
      by (simp add: power2_eq_square)
  qed
  have ii: "window_sum ?h ?w (\<lambda>r c. (?I r c - ?tm)\<^sup>2) = ?tt"
  proof (rule window_sum_cong)
    fix r c assume "r < ?h" "c < ?w"
    from same [OF this] show "(?I r c - ?tm)\<^sup>2 = (?T r c - ?tm)\<^sup>2"
      by simp
  qed
  have "ncc S T ox oy = (if ?tt = 0 then 1 else if ?tt = 0 then 0 else ?tt / sqrt (?tt * ?tt))"
    unfolding ncc_def Let_def m num ii ..
  also have "\<dots> = 1"
    using window_sum_nonneg [of "\<lambda>r c. (?T r c - ?tm)\<^sup>2" ?h ?w] by simp
  finally show ?thesis .
qed

lemma cv_ref_normalized: "normalized_score cv_ref"
  by (simp add: normalized_score_def cv_ref_def ncc_le_1 ncc_exact_copy)

section \<open>Region Matcher: the best alignment\<close>

text \<open>
  The scan for the maximum keeps three facts: no element seen is above the current best,
  the current best never decreases, and when the best moved it moved to an element that is
  strictly above everything scanned before it.
\<close>

lemma scan_row_max:
  "scan_row (\<lambda>a b. b < a) y x0 vs (b0, p0) = (bv, bp) \<Longrightarrow>
   (\<forall>i<length vs. vs ! i \<le> bv) \<and> b0 \<le> bv
   \<and> ((bv, bp) = (b0, p0)
      \<or> (\<exists>i<length vs. bp = (x0 + i, y) \<and> bv = vs ! i \<and> b0 < bv \<and> (\<forall>j<i. vs ! j < bv)))"
proof (induction vs arbitrary: x0 b0 p0)
  case Nil
  then show ?case by simp
next
  case (Cons v vs)
  show ?case
  proof (cases "b0 < v")
    case True
    with Cons.prems have run: "scan_row (\<lambda>a b. b < a) y (Suc x0) vs (v, x0, y) = (bv, bp)"
      by simp
    from Cons.IH [OF run] have le: "\<forall>i<length vs. vs ! i \<le> bv" and vle: "v \<le> bv"
      and alt: "(bv, bp) = (v, x0, y)
        \<or> (\<exists>i<length vs. bp = (Suc x0 + i, y) \<and> bv = vs ! i \<and> v < bv \<and> (\<forall>j<i. vs ! j < bv))"
      by auto
    have all: "\<forall>i<length (v # vs). (v # vs) ! i \<le> bv"
      using le vle by (auto simp: nth_Cons')
    from alt have "\<exists>i<length (v # vs). bp = (x0 + i, y) \<and> bv = (v # vs) ! i \<and> b0 < bv
        \<and> (\<forall>j<i. (v # vs) ! j < bv)"
    proof
      assume "(bv, bp) = (v, x0, y)"
      then show ?thesis using True by (intro exI [of _ 0]) simp
    next
      assume "\<exists>i<length vs. bp = (Suc x0 + i, y) \<and> bv = vs ! i \<and> v < bv \<and> (\<forall>j<i. vs ! j < bv)"
      then obtain i where i: "i < length vs" "bp = (Suc x0 + i, y)" "bv = vs ! i" "v < bv"
        "\<forall>j<i. vs ! j < bv" by blast
      show ?thesis
        using i True by (intro exI [of _ "Suc i"]) (auto simp: nth_Cons' less_Suc_eq_0_disj)
    qed
    with all True vle show ?thesis by auto
  next
    case False
    with Cons.prems have run: "scan_row (\<lambda>a b. b < a) y (Suc x0) vs (b0, p0) = (bv, bp)"
      by simp
    from Cons.IH [OF run] have le: "\<forall>i<length vs. vs ! i \<le> bv" and b0le: "b0 \<le> bv"
      and alt: "(bv, bp) = (b0, p0)
        \<or> (\<exists>i<length vs. bp = (Suc x0 + i, y) \<and> bv = vs ! i \<and> b0 < bv \<and> (\<forall>j<i. vs ! j < bv))"
      by auto
    have all: "\<forall>i<length (v # vs). (v # vs) ! i \<le> bv"
      using le b0le False by (auto simp: nth_Cons')
    from alt have "(bv, bp) = (b0, p0)
        \<or> (\<exists>i<length (v # vs). bp = (x0 + i, y) \<and> bv = (v # vs) ! i \<and> b0 < bv
        \<and> (\<forall>j<i. (v # vs) ! j < bv))"
    proof
      assume "(bv, bp) = (b0, p0)"
      then show ?thesis by simp
    next
      assume "\<exists>i<length vs. bp = (Suc x0 + i, y) \<and> bv = vs ! i \<and> b0 < bv \<and> (\<forall>j<i. vs ! j < bv)"
      then obtain i where i: "i < length vs" "bp = (Suc x0 + i, y)" "bv = vs ! i" "b0 < bv"
        "\<forall>j<i. vs ! j < bv" by blast
      have "\<exists>i<length (v # vs). bp = (x0 + i, y) \<and> bv = (v # vs) ! i \<and> b0 < bv
        \<and> (\<forall>j<i. (v # vs) ! j < bv)"
        using i False by (intro exI [of _ "Suc i"]) (auto simp: nth_Cons' less_Suc_eq_0_disj)
      then show ?thesis ..
    qed
    with all b0le show ?thesis by auto
  qed
qed

lemma scan_rows_max:
  "scan_rows (\<lambda>a b. b < a) y0 rows (b0, p0) = (bv, bp) \<Longrightarrow>
   (\<forall>k<length rows. \<forall>i<length (rows ! k). rows ! k ! i \<le> bv) \<and> b0 \<le> bv
   \<and> ((bv, bp) = (b0, p0)
      \<or> (\<exists>k<length rows. \<exists>i<length (rows ! k).
            bp = (i, y0 + k) \<and> bv = rows ! k ! i \<and> b0 < bv
            \<and> (\<forall>j<i. rows ! k ! j < bv)
            \<and> (\<forall>k'<k. \<forall>j<length (rows ! k'). rows ! k' ! j < bv)))"
proof (induction rows arbitrary: y0 b0 p0)
  case Nil
  then show ?case by simp
next
  case (Cons row rows)
  obtain b1 p1 where first: "scan_row (\<lambda>a b. b < a) y0 0 row (b0, p0) = (b1, p1)"
    by (cases "scan_row (\<lambda>a b. b < a) y0 0 row (b0, p0)")
  with Cons.prems have run: "scan_rows (\<lambda>a b. b < a) (Suc y0) rows (b1, p1) = (bv, bp)"
    by simp
  from scan_row_max [OF first] have rle: "\<forall>i<length row. row ! i \<le> b1" and b01: "b0 \<le> b1"
    and ralt: "(b1, p1) = (b0, p0)
      \<or> (\<exists>i<length row. p1 = (0 + i, y0) \<and> b1 = row ! i \<and> b0 < b1 \<and> (\<forall>j<i. row ! j < b1))"
    by auto
  from Cons.IH [OF run] have le: "\<forall>k<length rows. \<forall>i<length (rows ! k). rows ! k ! i \<le> bv"
    and b1v: "b1 \<le> bv"
    and alt: "(bv, bp) = (b1, p1)
      \<or> (\<exists>k<length rows. \<exists>i<length (rows ! k).
            bp = (i, Suc y0 + k) \<and> bv = rows ! k ! i \<and> b1 < bv
            \<and> (\<forall>j<i. rows ! k ! j < bv)
            \<and> (\<forall>k'<k. \<forall>j<length (rows ! k'). rows ! k' ! j < bv))"
    by auto
  have all: "\<forall>k<length (row # rows). \<forall>i<length ((row # rows) ! k). (row # rows) ! k ! i \<le> bv"
  proof (intro allI impI)
    fix k i assume "k < length (row # rows)" "i < length ((row # rows) ! k)"
    then show "(row # rows) ! k ! i \<le> bv"
      using rle le b1v by (cases k) (auto intro: order_trans)
  qed
  let ?hit = "\<exists>k<length (row # rows). \<exists>i<length ((row # rows) ! k).
            bp = (i, y0 + k) \<and> bv = (row # rows) ! k ! i \<and> b0 < bv
            \<and> (\<forall>j<i. (row # rows) ! k ! j < bv)
            \<and> (\<forall>k'<k. \<forall>j<length ((row # rows) ! k'). (row # rows) ! k' ! j < bv)"
  from alt have "(bv, bp) = (b0, p0) \<or> ?hit"
  proof
    assume same: "(bv, bp) = (b1, p1)"
    from ralt show ?thesis
    proof
      assume "(b1, p1) = (b0, p0)"
      with same show ?thesis by simp
    next
      assume "\<exists>i<length row. p1 = (0 + i, y0) \<and> b1 = row ! i \<and> b0 < b1 \<and> (\<forall>j<i. row ! j < b1)"
      then obtain i where i: "i < length row" "p1 = (i, y0)" "b1 = row ! i" "b0 < b1"
        "\<forall>j<i. row ! j < b1" by auto
      have ?hit
        using i same by (intro exI [of _ 0] exI [of _ i]) auto
      then show ?thesis ..
    qed
  next
    assume "\<exists>k<length rows. \<exists>i<length (rows ! k).
            bp = (i, Suc y0 + k) \<and> bv = rows ! k ! i \<and> b1 < bv
            \<and> (\<forall>j<i. rows ! k ! j < bv)
            \<and> (\<forall>k'<k. \<forall>j<length (rows ! k'). rows ! k' ! j < bv)"
    then obtain k i where ki: "k < length rows" "i < length (rows ! k)" "bp = (i, Suc y0 + k)"
      "bv = rows ! k ! i" "b1 < bv" "\<forall>j<i. rows ! k ! j < bv"
      "\<forall>k'<k. \<forall>j<length (rows ! k'). rows ! k' ! j < bv" by blast
    have earlier: "\<forall>k'<Suc k. \<forall>j<length ((row # rows) ! k'). (row # rows) ! k' ! j < bv"
    proof (intro allI impI)
      fix k' j assume "k' < Suc k" "j < length ((row # rows) ! k')"
      then show "(row # rows) ! k' ! j < bv"
        using rle ki(5,7) by (cases k') (auto intro: le_less_trans)
    qed
    have ?hit
      using ki b01 earlier by (intro exI [of _ "Suc k"] exI [of _ i]) auto
    then show ?thesis ..
  qed
  with all b01 b1v show ?case by auto
qed

lemma minMaxLoc_first_max:
  assumes "minMaxLoc src = Inr (min_val, max_val, min_loc, (bx, by))"
  shows "by < length src \<and> bx < length (src ! by) \<and> max_val = src ! by ! bx
     \<and> (\<forall>k<length src. \<forall>i<length (src ! k). src ! k ! i \<le> max_val)
     \<and> (\<forall>k<length src. \<forall>i<length (src ! k).
           (k < by \<or> (k = by \<and> i < bx)) \<longrightarrow> src ! k ! i < max_val)"
proof -
  from assms obtain v r0 rest where src: "src = (v # r0) # rest"
    by (auto simp: minMaxLoc_def split: list.splits)
  from assms have run: "scan_rows (\<lambda>a b. b < a) 0 src (v, 0, 0) = (max_val, bx, by)"
    by (auto simp: minMaxLoc_def src split: prod.splits)
  from scan_rows_max [OF run]
  have le: "\<forall>k<length src. \<forall>i<length (src ! k). src ! k ! i \<le> max_val"
    and alt: "(max_val, bx, by) = (v, 0, 0)
      \<or> (\<exists>k<length src. \<exists>i<length (src ! k).
            (bx, by) = (i, 0 + k) \<and> max_val = src ! k ! i \<and> v < max_val
            \<and> (\<forall>j<i. src ! k ! j < max_val)
            \<and> (\<forall>k'<k. \<forall>j<length (src ! k'). src ! k' ! j < max_val))"
    by auto
  from alt show ?thesis
  proof
    assume "(max_val, bx, by) = (v, 0, 0)"
    then show ?thesis using le by (simp add: src)
  next
    assume "\<exists>k<length src. \<exists>i<length (src ! k).
            (bx, by) = (i, 0 + k) \<and> max_val = src ! k ! i \<and> v < max_val
            \<and> (\<forall>j<i. src ! k ! j < max_val)
            \<and> (\<forall>k'<k. \<forall>j<length (src ! k'). src ! k' ! j < max_val)"
    then show ?thesis using le by auto
  qed
qed

lemma valid_alignment_iff:
  assumes "shape0 T \<le> shape0 S" "shape1 T \<le> shape1 S"
  shows "valid_alignment S T x y
     \<longleftrightarrow> x < shape1 S - shape1 T + 1 \<and> y < shape0 S - shape0 T + 1"
  using assms by (auto simp: valid_alignment_def)

lemma find_template_first_max:
  assumes ne: "nonempty T" and fit: "shape0 T \<le> shape0 S" "shape1 T \<le> shape1 S"
  shows "\<exists>bx by. valid_alignment S T bx by
     \<and> (\<forall>x y. valid_alignment S T x y
           \<longrightarrow> ccoeff_normed cv S T x y \<le> ccoeff_normed cv S T bx by)
     \<and> (\<forall>x y. valid_alignment S T x y \<and> scanned_before x y bx by
           \<longrightarrow> ccoeff_normed cv S T x y < ccoeff_normed cv S T bx by)
     \<and> find_template cv (Some S) (Some T) threshold
         = Inr (if threshold \<le> ccoeff_normed cv S T bx by
                then Some (int bx + int (shape1 T) div 2, int by + int (shape0 T) div 2)
                else None)"
proof -
  let ?n = "Suc (shape1 S - shape1 T)" and ?m = "Suc (shape0 S - shape0 T)"
  let ?res = "map (\<lambda>y. map (\<lambda>x. ccoeff_normed cv S T x y) [0..<?n]) [0..<?m]"
  have mt: "matchTemplate cv S T = Inr ?res"
    using ne fit by (simp add: matchTemplate_def nonempty_def del: upt_Suc)
  obtain r where "minMaxLoc ?res = Inr r"
    using minMaxLoc_nonempty [of "\<lambda>y x. ccoeff_normed cv S T x y"] ..
  then obtain min_val max_val min_loc bx "by"
    where mm: "minMaxLoc ?res = Inr (min_val, max_val, min_loc, (bx, by))"
    by (cases r) (auto simp del: upt_Suc)
  from minMaxLoc_first_max [OF mm]
  have by_lt: "by < ?m" and bx_lt: "bx < ?n"
    and val: "max_val = ccoeff_normed cv S T bx by"
    and le: "\<forall>k<?m. \<forall>i<?n. ccoeff_normed cv S T i k \<le> max_val"
    and lt: "\<forall>k<?m. \<forall>i<?n. (k < by \<or> (k = by \<and> i < bx)) \<longrightarrow> ccoeff_normed cv S T i k < max_val"
    by (auto simp del: upt_Suc)
  have ft: "find_template cv (Some S) (Some T) threshold
         = Inr (if threshold \<le> ccoeff_normed cv S T bx by
                then Some (int bx + int (shape1 T) div 2, int by + int (shape0 T) div 2)
                else None)"
    using fit by (simp add: find_template_def mt mm val Let_def del: upt_Suc)
  show ?thesis
    using by_lt bx_lt le lt ft
    unfolding val scanned_before_def valid_alignment_iff [OF fit]
    by (intro exI [of _ bx] exI [of _ "by"]) (auto simp del: upt_Suc)
qed

lemma first_max_unique:
  fixes f :: "nat \<Rightarrow> nat \<Rightarrow> real"
  assumes "V bx by" "V ox oy"
    and "\<forall>x y. V x y \<longrightarrow> f x y \<le> f bx by"
    and "\<forall>x y. V x y \<and> scanned_before x y bx by \<longrightarrow> f x y < f bx by"
    and "\<forall>x y. V x y \<longrightarrow> f x y \<le> f ox oy"
    and "\<forall>x y. V x y \<and> scanned_before x y ox oy \<longrightarrow> f x y < f ox oy"
  shows "bx = ox \<and> by = oy"
proof (rule ccontr)
  assume "\<not> (bx = ox \<and> by = oy)"
  then have "scanned_before bx by ox oy \<or> scanned_before ox oy bx by"
    by (auto simp: scanned_before_def)
  then show False
  proof
    assume "scanned_before bx by ox oy"
    then have "f bx by < f ox oy" using assms(1,6) by blast
    moreover have "f ox oy \<le> f bx by" using assms(2,3) by blast
    ultimately show False by simp
  next
    assume "scanned_before ox oy bx by"
    then have "f ox oy < f bx by" using assms(2,4) by blast
    moreover have "f bx by \<le> f ox oy" using assms(1,5) by blast
    ultimately show False by simp
  qed
qed

text \<open>
  C1, as amended. For a non-empty template that fits inside the search image, the matcher
  finds an alignment whose score is maximal over all valid alignments and strictly above
  the score of every alignment scanned before it (row by row, left to right). If that
  maximal score reaches the threshold, the result is the template's centre at that
  alignment, \<open>(x + width div 2, y + height div 2)\<close>; otherwise the result is "not found".
  In particular, with a score that is a normalized cross-correlation, when the search
  image holds an exact copy of the template at \<open>(ox, oy)\<close>, the threshold is at most 1 and
  no alignment scanned before \<open>(ox, oy)\<close> scores as high as the copy, the result is
  \<open>(ox + width div 2, oy + height div 2)\<close>.
\<close>

theorem find_template_best:
  assumes "nonempty T" and "shape0 T \<le> shape0 S" and "shape1 T \<le> shape1 S"
  shows "(\<exists>bx by. valid_alignment S T bx by
       \<and> (\<forall>x y. valid_alignment S T x y
             \<longrightarrow> ccoeff_normed cv S T x y \<le> ccoeff_normed cv S T bx by)
       \<and> (\<forall>x y. valid_alignment S T x y \<and> scanned_before x y bx by
             \<longrightarrow> ccoeff_normed cv S T x y < ccoeff_normed cv S T bx by)
       \<and> find_template cv (Some S) (Some T) threshold
           = Inr (if threshold \<le> ccoeff_normed cv S T bx by
                  then Some (int bx + int (shape1 T) div 2, int by + int (shape0 T) div 2)
                  else None))
     \<and> (normalized_score cv
        \<and> exact_copy S T ox oy
        \<and> threshold \<le> 1
        \<and> (\<forall>x y. valid_alignment S T x y \<and> scanned_before x y ox oy
              \<longrightarrow> ccoeff_normed cv S T x y < ccoeff_normed cv S T ox oy)
        \<longrightarrow> find_template cv (Some S) (Some T) threshold
             = Inr (Some (int ox + int (shape1 T) div 2, int oy + int (shape0 T) div 2)))"
proof (intro conjI impI)
  show "\<exists>bx by. valid_alignment S T bx by
       \<and> (\<forall>x y. valid_alignment S T x y
             \<longrightarrow> ccoeff_normed cv S T x y \<le> ccoeff_normed cv S T bx by)
       \<and> (\<forall>x y. valid_alignment S T x y \<and> scanned_before x y bx by
             \<longrightarrow> ccoeff_normed cv S T x y < ccoeff_normed cv S T bx by)
       \<and> find_template cv (Some S) (Some T) threshold
           = Inr (if threshold \<le> ccoeff_normed cv S T bx by
                  then Some (int bx + int (shape1 T) div 2, int by + int (shape0 T) div 2)
                  else None)"
    by (rule find_template_first_max [OF assms])
next
  assume copy: "normalized_score cv
        \<and> exact_copy S T ox oy
        \<and> threshold \<le> 1
        \<and> (\<forall>x y. valid_alignment S T x y \<and> scanned_before x y ox oy
              \<longrightarrow> ccoeff_normed cv S T x y < ccoeff_normed cv S T ox oy)"
  then have v: "valid_alignment S T ox oy" by (simp add: exact_copy_def)
  from copy v have one: "ccoeff_normed cv S T ox oy = 1"
    by (simp add: normalized_score_def)
  from copy have top: "\<forall>x y. valid_alignment S T x y
      \<longrightarrow> ccoeff_normed cv S T x y \<le> ccoeff_normed cv S T ox oy"
    unfolding one by (simp add: normalized_score_def)
  from find_template_first_max [OF assms, of cv threshold]
  obtain bx "by" where b: "valid_alignment S T bx by"
    "\<forall>x y. valid_alignment S T x y \<longrightarrow> ccoeff_normed cv S T x y \<le> ccoeff_normed cv S T bx by"
    "\<forall>x y. valid_alignment S T x y \<and> scanned_before x y bx by
           \<longrightarrow> ccoeff_normed cv S T x y < ccoeff_normed cv S T bx by"
    "find_template cv (Some S) (Some T) threshold
           = Inr (if threshold \<le> ccoeff_normed cv S T bx by
                  then Some (int bx + int (shape1 T) div 2, int by + int (shape0 T) div 2)
                  else None)"
    by blast
  have "bx = ox \<and> by = oy"
    using first_max_unique [of "valid_alignment S T" bx "by" ox oy "ccoeff_normed cv S T"]
      b(1,2,3) v top copy by blast
  with b(4) copy one
  show "find_template cv (Some S) (Some T) threshold
             = Inr (Some (int ox + int (shape1 T) div 2, int oy + int (shape0 T) div 2))"
    by simp
qed

lemma one_copy_scores:
  "ccoeff_normed cv_ref one_copy stripe 0 0 = - 1"
  "ccoeff_normed cv_ref one_copy stripe 1 0 = 1"
  by (simp_all add: cv_ref_def ncc_def window_sum_def gray_rows_def of_rows_def upt_rec Let_def
      c1_defs)

lemma one_copy_alignments:
  "valid_alignment one_copy stripe x y \<longleftrightarrow> (x = 0 \<or> x = 1) \<and> y = 0"
  by (auto simp: gray_rows_def of_rows_def c1_defs)

lemma one_copy_fits:
  "nonempty stripe" "shape0 stripe \<le> shape0 one_copy" "shape1 stripe \<le> shape1 one_copy"
  by (simp_all add: nonempty_def gray_rows_def of_rows_def c1_defs)

lemma one_copy_exact: "exact_copy one_copy stripe 1 0"
  by (simp add: gray_rows_def of_rows_def upt_rec c1_defs)

lemma one_copy_first:
  "\<forall>x y. valid_alignment one_copy stripe x y \<and> scanned_before x y 1 0
       \<longrightarrow> ccoeff_normed cv_ref one_copy stripe x y < ccoeff_normed cv_ref one_copy stripe 1 0"
  using one_copy_scores by (auto simp: one_copy_alignments scanned_before_def)

theorem find_template_best_witness:
  "nonempty stripe \<and> shape0 stripe \<le> shape0 one_copy \<and> shape1 stripe \<le> shape1 one_copy
   \<and> normalized_score cv_ref
   \<and> exact_copy one_copy stripe 1 0
   \<and> (8 / 10 :: real) \<le> 1
   \<and> find_template cv_ref (Some one_copy) (Some stripe) (8 / 10)
       = Inr (Some (int 1 + int (shape1 stripe) div 2, int 0 + int (shape0 stripe) div 2))"
proof -
  have thr: "(8 / 10 :: real) \<le> 1" by simp
  from find_template_best [OF one_copy_fits, where ox = 1 and oy = 0 and threshold = "8 / 10"
      and cv = cv_ref]
    cv_ref_normalized one_copy_exact thr one_copy_first
  have "find_template cv_ref (Some one_copy) (Some stripe) (8 / 10)
       = Inr (Some (int 1 + int (shape1 stripe) div 2, int 0 + int (shape0 stripe) div 2))"
    by blast
  then show ?thesis
    using one_copy_fits cv_ref_normalized one_copy_exact thr by blast
qed

text \<open>
  The claim as stated, without the condition on earlier alignments, fails on a search
  image that holds the template twice: the copy at offset \<open>(2, 0)\<close> is exact and the
  threshold is below 1, but the matcher reports the centre of the copy at \<open>(0, 0)\<close>.
\<close>

theorem exact_copy_counterexample:
  "exact_copy two_copies stripe 2 0 \<and> (8 / 10 :: real) \<le> 1
   \<and> exact_copy two_copies stripe 0 0
   \<and> find_template cv_ref (Some two_copies) (Some stripe) (8 / 10) = Inr (Some (1, 0))
   \<and> find_template cv_ref (Some two_copies) (Some stripe) (8 / 10)
       \<noteq> Inr (Some (2 + int (shape1 stripe) div 2, 0 + int (shape0 stripe) div 2))"
  by (simp add: eval_defs c1_defs)

text \<open>
  Whatever scores the library computes, one call returns one position, so it cannot return
  the centre of both copies.
\<close>

lemma two_copies_any_scores:
  "exact_copy two_copies stripe 0 0 \<and> exact_copy two_copies stripe 2 0
   \<and> \<not> (find_template cv (Some two_copies) (Some stripe) threshold
            = Inr (Some (0 + int (shape1 stripe) div 2, 0 + int (shape0 stripe) div 2))
        \<and> find_template cv (Some two_copies) (Some stripe) threshold
            = Inr (Some (2 + int (shape1 stripe) div 2, 0 + int (shape0 stripe) div 2)))"
  by (simp add: gray_rows_def of_rows_def upt_rec c1_defs)

section \<open>Region Matcher: the guards\<close>

text \<open>
  C5. When either argument of the matcher is absent, or the template is taller or wider
  than the search image, the matcher returns "not found" as a value: it does not raise,
  and in particular it does not reach the library call that rejects such a template.
\<close>

theorem find_template_guard:
  "find_template cv None template threshold = Inr None
   \<and> find_template cv screen None threshold = Inr None
   \<and> (shape0 T > shape0 S \<or> shape1 T > shape1 S
        \<longrightarrow> find_template cv (Some S) (Some T) threshold = Inr None)"
  by (cases template) (auto simp: find_template_def split: option.splits)

theorem find_template_guard_witness:
  "shape0 (gray_rows [[1, 2], [3, 4]]) > shape0 (gray_rows [[1]])
   \<and> find_template cv_ref (Some (gray_rows [[1]])) (Some (gray_rows [[1, 2], [3, 4]])) (8 / 10)
       = Inr None"
  using find_template_guard [where S = "gray_rows [[1]]" and T = "gray_rows [[1, 2], [3, 4]]"
      and cv = cv_ref and threshold = "8 / 10"]
  by (simp add: gray_rows_def of_rows_def)

section \<open>Phase Classifier\<close>

lemma detect_ui_total:
  assumes "templates_ok (ui_templates self)"
  shows "\<exists>r. detect_ui cv self g name = Inr r"
proof (cases "map_of (ui_templates self) name")
  case None
  then show ?thesis by (simp add: detect_ui_def)
next
  case (Some t)
  then have "nonempty t" using assms templates_ok_lookup by blast
  then show ?thesis using Some find_template_total [of t cv "Some g" "7 / 10"]
    by (simp add: detect_ui_def)
qed

lemma ui_matches_detect_ui:
  assumes "preprocess_image cv frame = Inr g" and "ui_templates self' = ui_templates self"
  shows "ui_matches cv self frame name \<longleftrightarrow> (\<exists>p. detect_ui cv self' g name = Inr (Some p))"
  using assms by (auto simp: ui_matches_def detect_ui_def split: option.splits sum.splits)

lemma detect_ui_no_match:
  assumes "preprocess_image cv frame = Inr g" and "ui_templates self' = ui_templates self"
    and "templates_ok (ui_templates self)" and "\<not> ui_matches cv self frame name"
  shows "detect_ui cv self' g name = Inr None"
proof -
  obtain r where r: "detect_ui cv self' g name = Inr r"
    using detect_ui_total [of self' cv g name] assms(2,3) by auto
  with assms(1,2,4) show ?thesis
    using ui_matches_detect_ui [OF assms(1,2), of name] by (cases r) auto
qed

lemma classify_no_match:
  assumes "nonempty frame" "templates_ok (ui_templates self)"
    "\<not> ui_matches cv self frame ''Battle Indicator''"
    "\<not> ui_matches cv self frame ''Play Button''"
    "\<not> ui_matches cv self frame ''OK Button''"
    "\<not> ui_matches cv self frame ''Home Button''"
  shows "fst (get_current_game_state cv self frame) = Inr IN_BATTLE"
proof -
  let ?self' = "self\<lparr>latest_screenshot := Some frame\<rparr>"
  obtain g where g: "preprocess_image cv frame = Inr g"
    using preprocess_image_nonempty [OF assms(1)] by blast
  have u: "ui_templates ?self' = ui_templates self" by simp
  note d = detect_ui_no_match [OF g u assms(2)]
  show ?thesis
    by (simp add: get_current_game_state_def Let_def g d [OF assms(3)] d [OF assms(4)]
        d [OF assms(5)] d [OF assms(6)])
qed

lemma classify_not_other:
  "fst (get_current_game_state cv self frame) \<noteq> Inr INITIALIZING
   \<and> fst (get_current_game_state cv self frame) \<noteq> Inr STOPPED"
  by (simp add: get_current_game_state_def Let_def split: sum.splits option.splits)

lemma classify_first_match:
  assumes "nonempty frame" "templates_ok (ui_templates self)"
  shows "fst (get_current_game_state cv self frame)
         = Inr (first_match (ui_matches cv self frame) phase_rules)"
proof -
  let ?self' = "self\<lparr>latest_screenshot := Some frame\<rparr>"
  obtain g where g: "preprocess_image cv frame = Inr g"
    using preprocess_image_nonempty [OF assms(1)] by blast
  have u: "ui_templates ?self' = ui_templates self" by simp
  have ok: "templates_ok (ui_templates ?self')" using assms(2) by simp
  note m = ui_matches_detect_ui [OF g u]
  obtain r1 where r1: "detect_ui cv ?self' g ''Battle Indicator'' = Inr r1"
    using detect_ui_total [OF ok] by blast
  obtain r2 where r2: "detect_ui cv ?self' g ''Play Button'' = Inr r2"
    using detect_ui_total [OF ok] by blast
  obtain r3 where r3: "detect_ui cv ?self' g ''OK Button'' = Inr r3"
    using detect_ui_total [OF ok] by blast
  obtain r4 where r4: "detect_ui cv ?self' g ''Home Button'' = Inr r4"
    using detect_ui_total [OF ok] by blast
  show ?thesis
    by (cases r1; cases r2; cases r3; cases r4)
      (simp_all add: get_current_game_state_def Let_def g phase_rules_def m r1 r2 r3 r4)
qed

lemma first_match_range:
  "first_match m phase_rules \<in> {IN_BATTLE, ON_MENU, POST_GAME}"
  by (simp add: phase_rules_def)

lemma classify_battle_first:
  assumes "ui_matches cv self frame ''Battle Indicator''"
  shows "fst (get_current_game_state cv self frame) = Inr IN_BATTLE"
proof -
  let ?self' = "self\<lparr>latest_screenshot := Some frame\<rparr>"
  obtain g where g: "preprocess_image cv frame = Inr g"
    using assms by (auto simp: ui_matches_def split: sum.splits)
  have u: "ui_templates ?self' = ui_templates self" by simp
  obtain p where "detect_ui cv ?self' g ''Battle Indicator'' = Inr (Some p)"
    using ui_matches_detect_ui [OF g u] assms by blast
  then show ?thesis by (simp add: get_current_game_state_def Let_def g)
qed

lemma example_ui_ok: "templates_ok (ui_templates example_vs)"
  by (simp add: eval_defs)

lemma both_frame_nonempty: "nonempty both_frame"
  by (simp add: eval_defs)

lemma both_frame_battle: "ui_matches cv_ref example_vs both_frame ''Battle Indicator''"
  by (simp add: eval_defs)

lemma both_frame_play: "ui_matches cv_ref example_vs both_frame ''Play Button''"
  by (simp add: eval_defs)

lemma blank_frame_nonempty: "nonempty blank_frame"
  by (simp add: eval_defs)

lemma blank_frame_no_match:
  "\<not> ui_matches cv_ref example_vs blank_frame ''Battle Indicator''"
  "\<not> ui_matches cv_ref example_vs blank_frame ''Play Button''"
  "\<not> ui_matches cv_ref example_vs blank_frame ''OK Button''"
  "\<not> ui_matches cv_ref example_vs blank_frame ''Home Button''"
  by (simp_all add: eval_defs)

text \<open>
  C2. On a non-empty frame and a store of non-empty templates, the phase returned is the
  phase of the first rule, in the order battle indicator (in-battle), play button
  (on-menu), ok button (post-game), home button (on-menu), whose template matches at
  threshold 0.7, and in-battle when none does. A frame on which both the battle indicator
  and the play button match is classified in-battle.
\<close>

theorem classify_rule_order:
  assumes "nonempty frame" and "templates_ok (ui_templates self)"
  shows "fst (get_current_game_state cv self frame)
           = Inr (first_match (ui_matches cv self frame) phase_rules)
         \<and> (ui_matches cv self frame ''Battle Indicator''
              \<and> ui_matches cv self frame ''Play Button''
            \<longrightarrow> fst (get_current_game_state cv self frame) = Inr IN_BATTLE)"
  using classify_first_match [OF assms] classify_battle_first by blast

theorem classify_rule_order_witness:
  "nonempty both_frame \<and> templates_ok (ui_templates example_vs)
   \<and> ui_matches cv_ref example_vs both_frame ''Battle Indicator''
   \<and> ui_matches cv_ref example_vs both_frame ''Play Button''
   \<and> fst (get_current_game_state cv_ref example_vs both_frame)
       = Inr (first_match (ui_matches cv_ref example_vs both_frame) phase_rules)
   \<and> fst (get_current_game_state cv_ref example_vs both_frame) = Inr IN_BATTLE"
  using classify_rule_order [OF both_frame_nonempty example_ui_ok, of cv_ref]
    both_frame_nonempty example_ui_ok both_frame_battle both_frame_play
  by blast

text \<open>
  C3. On a non-empty frame and a store of non-empty templates, when none of the four UI
  templates matches at threshold 0.7 the classifier returns in-battle. The witness is a
  blank, all-zero frame.
\<close>

theorem classify_fallback:
  assumes "nonempty frame" and "templates_ok (ui_templates self)"
    and "\<not> ui_matches cv self frame ''Battle Indicator''"
    and "\<not> ui_matches cv self frame ''Play Button''"
    and "\<not> ui_matches cv self frame ''OK Button''"
    and "\<not> ui_matches cv self frame ''Home Button''"
  shows "fst (get_current_game_state cv self frame) = Inr IN_BATTLE"
  using assms by (rule classify_no_match)

theorem classify_fallback_witness:
  "nonempty blank_frame \<and> templates_ok (ui_templates example_vs)
   \<and> \<not> ui_matches cv_ref example_vs blank_frame ''Battle Indicator''
   \<and> \<not> ui_matches cv_ref example_vs blank_frame ''Play Button''
   \<and> \<not> ui_matches cv_ref example_vs blank_frame ''OK Button''
   \<and> \<not> ui_matches cv_ref example_vs blank_frame ''Home Button''
   \<and> fst (get_current_game_state cv_ref example_vs blank_frame) = Inr IN_BATTLE"
  using classify_fallback [OF blank_frame_nonempty example_ui_ok blank_frame_no_match]
    blank_frame_nonempty example_ui_ok blank_frame_no_match
  by blast

text \<open>
  C9. Classifying the same frame again, on the object the first call returned, gives the
  same result: the result does not depend on the stored latest frame, which is the only
  field the call writes.
\<close>

theorem classify_twice:
  "fst (get_current_game_state cv (snd (get_current_game_state cv self frame)) frame)
     = fst (get_current_game_state cv self frame)
   \<and> fst (get_current_game_state cv (self\<lparr>latest_screenshot := shot\<rparr>) frame)
     = fst (get_current_game_state cv self frame)
   \<and> snd (get_current_game_state cv self frame) = self\<lparr>latest_screenshot := Some frame\<rparr>"
  by (simp add: get_current_game_state_def Let_def detect_ui_def)

text \<open>
  C10. The classifier never returns the initializing or the stopped phase; on a non-empty
  frame and a store of non-empty templates it returns in-battle, on-menu or post-game.
\<close>

theorem classify_three_phases:
  "fst (get_current_game_state cv self frame) \<noteq> Inr INITIALIZING
   \<and> fst (get_current_game_state cv self frame) \<noteq> Inr STOPPED
   \<and> (nonempty frame \<and> templates_ok (ui_templates self)
        \<longrightarrow> fst (get_current_game_state cv self frame)
              \<in> {Inr IN_BATTLE, Inr ON_MENU, Inr POST_GAME})"
  using classify_not_other [of cv self frame] classify_first_match [of frame self cv]
    first_match_range [of "ui_matches cv self frame"]
  by auto

theorem classify_three_phases_witness:
  "nonempty both_frame \<and> templates_ok (ui_templates example_vs)
   \<and> fst (get_current_game_state cv_ref example_vs both_frame)
       \<in> {Inr IN_BATTLE, Inr ON_MENU, Inr POST_GAME}
   \<and> fst (get_current_game_state cv_ref example_vs both_frame) \<noteq> Inr INITIALIZING
   \<and> fst (get_current_game_state cv_ref example_vs both_frame) \<noteq> Inr STOPPED"
  using classify_three_phases [of cv_ref example_vs both_frame]
    both_frame_nonempty example_ui_ok
  by blast

text \<open>Each of the three phases is returned on some frame.\<close>

lemma classify_reaches_each_phase:
  "fst (get_current_game_state cv_ref example_vs both_frame) = Inr IN_BATTLE"
  "fst (get_current_game_state cv_ref example_vs menu_frame) = Inr ON_MENU"
  "fst (get_current_game_state cv_ref example_vs post_frame) = Inr POST_GAME"
  by (simp_all add: get_current_game_state_def detect_ui_def eval_defs menu_frame_def
      post_frame_def)

section \<open>Regions of interest\<close>

text \<open>
  C7. The enemy-field region has the left, top and right sides of the battlefield region,
  and its bottom is the battlefield's top plus half the battlefield's height (integer
  division) plus 50; with the battlefield region (0, 150, 720, 1000) it is
  (0, 150, 720, 625).
\<close>

theorem enemy_field_roi_value:
  "enemy_field_roi (VisionSystem_init cards ui enemy_units) = (0, 150, 720, 625)
   \<and> battlefield_roi (VisionSystem_init cards ui enemy_units) = (0, 150, 720, 1000)
   \<and> (case battlefield_roi (VisionSystem_init cards ui enemy_units) of
         (b_left, b_top, b_right, b_bottom) \<Rightarrow>
           enemy_field_roi (VisionSystem_init cards ui enemy_units)
             = (b_left, b_top, b_right, b_top + (b_bottom - b_top) div 2 + 50))"
  by (simp add: VisionSystem_init_def)

text \<open>
  A non-empty crop of a region with non-negative left and top starts at the region's
  top-left corner, so adding the region's left and top to a crop-local position gives the
  position in the full frame.
\<close>

lemma roi_crop_px:
  assumes "0 \<le> x_start" "0 \<le> y_start"
    and "ndarray_size (roi_crop g (x_start, y_start, x_end, y_end)) \<noteq> 0"
  shows "px (roi_crop g (x_start, y_start, x_end, y_end)) r c
         = px g (nat y_start + r) (nat x_start + c)"
  using assms
  by (auto simp: roi_crop_def crop_def slice_bound_def ndarray_size_def Let_def min_def max_def
      split: if_splits)

section \<open>Scene Analyzer\<close>

text \<open>The two detection loops compute the specification's remapped lists.\<close>

lemma detect_cards_spec:
  "templates_ok store \<Longrightarrow>
   detect_cards cv roi_image (roi_left r) (roi_top r) store acc
     = Inr (acc @ remapped_cards cv roi_image r store)"
proof (induction store arbitrary: acc)
  case Nil
  then show ?case by (simp add: remapped_cards_def List.map_filter_simps)
next
  case (Cons entry store)
  obtain name t where entry: "entry = (name, t)" by (cases entry)
  from Cons.prems have t: "nonempty t" and rest: "templates_ok store"
    by (simp_all add: templates_ok_def entry)
  obtain res where res: "find_template cv (Some roi_image) (Some t) (85 / 100) = Inr res"
    using find_template_total [OF t] by blast
  show ?case
    using Cons.IH [OF rest] res
    by (cases res)
      (simp_all add: entry remapped_cards_def List.map_filter_simps Let_def)
qed

lemma detect_units_spec:
  "templates_ok store \<Longrightarrow>
   detect_units cv roi_image (roi_left r) (roi_top r) store acc
     = Inr (acc @ remapped_units cv roi_image r store)"
proof (induction store arbitrary: acc)
  case Nil
  then show ?case by (simp add: remapped_units_def List.map_filter_simps)
next
  case (Cons entry store)
  obtain name t where entry: "entry = (name, t)" by (cases entry)
  from Cons.prems have t: "nonempty t" and rest: "templates_ok store"
    by (simp_all add: templates_ok_def entry)
  obtain res where res: "find_template cv (Some roi_image) (Some t) (85 / 100) = Inr res"
    using find_template_total [OF t] by blast
  show ?case
    using Cons.IH [OF rest] res
    by (cases res)
      (simp_all add: entry remapped_units_def List.map_filter_simps Let_def)
qed

lemma analyze_battlefield_spec:
  assumes "preprocess_image cv frame = Inr processed"
    and "ndarray_size (roi_crop processed (hand_roi self)) = 0 \<or> templates_ok (card_templates self)"
    and "ndarray_size (roi_crop processed (enemy_field_roi self)) = 0 \<or> templates_ok (enemy_unit_templates self)"
  shows "\<exists>info. fst (analyze_battlefield cv self frame) = Inr info
     \<and> cards_in_hand info =
         (if ndarray_size (roi_crop processed (hand_roi self)) = 0 then []
          else remapped_cards cv (roi_crop processed (hand_roi self)) (hand_roi self)
                 (card_templates self))
     \<and> opponent_units info =
         (if ndarray_size (roi_crop processed (enemy_field_roi self)) = 0 then []
          else remapped_units cv (roi_crop processed (enemy_field_roi self))
                 (enemy_field_roi self) (enemy_unit_templates self))"
  using assms
  by (auto simp: analyze_battlefield_def Let_def
      detect_cards_spec [where acc = "[]", unfolded roi_left_def roi_top_def, simplified]
      detect_units_spec [where acc = "[]", unfolded roi_left_def roi_top_def, simplified])

lemma remapped_cards_member:
  assumes "(name, t) \<in> set store"
    and "find_template cv (Some roi_image) (Some t) (85 / 100) = Inr (Some (x, y))"
  shows "\<lparr>card_name = name, card_position = (x + roi_left r, y + roi_top r),
          elixir_cost = 3, card_type = ''unit''\<rparr> \<in> set (remapped_cards cv roi_image r store)"
  using assms by (force simp: remapped_cards_def List.map_filter_def image_iff)

lemma remapped_units_member:
  assumes "(name, t) \<in> set store"
    and "find_template cv (Some roi_image) (Some t) (85 / 100) = Inr (Some (x, y))"
  shows "\<lparr>unit_name = name, unit_position = (x + roi_left r, y + roi_top r),
          health = 100, unit_type = ''unit''\<rparr> \<in> set (remapped_units cv roi_image r store)"
  using assms by (force simp: remapped_units_def List.map_filter_def image_iff)

lemma tiny_frame_crops:
  assumes "shape0 g = 1"
  shows "ndarray_size (roi_crop g (50, 1050, 670, 1230)) = 0"
    and "ndarray_size (roi_crop g (0, 150, 720, 625)) = 0"
  using assms by (simp_all add: ndarray_size_def roi_crop_def crop_def slice_bound_def Let_def)

text \<open>
  C4. On a frame that preprocessing accepts and stores of non-empty templates, the
  analyzer returns a scene in which, when the hand crop is non-empty, the detected cards
  are exactly the matches of the card templates in the hand crop at threshold 0.85, in
  template order, each at the crop-local match position plus the hand region's left and
  top; in particular every card template found at \<open>(x, y)\<close> in the crop has an entry at
  \<open>(x + left, y + top)\<close>. The same holds for the enemy-unit templates and the enemy-field
  region.
\<close>

theorem analyze_remaps:
  assumes "preprocess_image cv frame = Inr processed"
    and "templates_ok (card_templates self)"
    and "templates_ok (enemy_unit_templates self)"
  shows "\<exists>info. fst (analyze_battlefield cv self frame) = Inr info
     \<and> (ndarray_size (roi_crop processed (hand_roi self)) \<noteq> 0
        \<longrightarrow> cards_in_hand info
              = remapped_cards cv (roi_crop processed (hand_roi self)) (hand_roi self)
                  (card_templates self)
            \<and> (\<forall>name t x y.
                  (name, t) \<in> set (card_templates self)
                  \<and> find_template cv (Some (roi_crop processed (hand_roi self))) (Some t)
                        (85 / 100)
                      = Inr (Some (x, y))
                  \<longrightarrow> \<lparr>card_name = name,
                        card_position = (x + roi_left (hand_roi self),
                                         y + roi_top (hand_roi self)),
                        elixir_cost = 3, card_type = ''unit''\<rparr> \<in> set (cards_in_hand info)))
     \<and> (ndarray_size (roi_crop processed (enemy_field_roi self)) \<noteq> 0
        \<longrightarrow> opponent_units info
              = remapped_units cv (roi_crop processed (enemy_field_roi self))
                  (enemy_field_roi self) (enemy_unit_templates self)
            \<and> (\<forall>name t x y.
                  (name, t) \<in> set (enemy_unit_templates self)
                  \<and> find_template cv (Some (roi_crop processed (enemy_field_roi self))) (Some t)
                        (85 / 100)
                      = Inr (Some (x, y))
                  \<longrightarrow> \<lparr>unit_name = name,
                        unit_position = (x + roi_left (enemy_field_roi self),
                                         y + roi_top (enemy_field_roi self)),
                        health = 100, unit_type = ''unit''\<rparr> \<in> set (opponent_units info)))"
proof -
  let ?hand = "roi_crop processed (hand_roi self)"
  let ?field = "roi_crop processed (enemy_field_roi self)"
  obtain info where info: "fst (analyze_battlefield cv self frame) = Inr info"
    and cards: "cards_in_hand info
         = (if ndarray_size ?hand = 0 then []
            else remapped_cards cv ?hand (hand_roi self) (card_templates self))"
    and units: "opponent_units info
         = (if ndarray_size ?field = 0 then []
            else remapped_units cv ?field (enemy_field_roi self) (enemy_unit_templates self))"
    using analyze_battlefield_spec [of cv frame processed self] assms by auto
  have c: "\<lparr>card_name = name,
          card_position = (x + roi_left (hand_roi self), y + roi_top (hand_roi self)),
          elixir_cost = 3, card_type = ''unit''\<rparr> \<in> set (cards_in_hand info)"
    if "ndarray_size ?hand \<noteq> 0" "(name, t) \<in> set (card_templates self)
        \<and> find_template cv (Some ?hand) (Some t) (85 / 100) = Inr (Some (x, y))" for name t x y
    using that remapped_cards_member [of name t "card_templates self" cv ?hand x y "hand_roi self"]
    by (simp add: cards)
  have u: "\<lparr>unit_name = name,
          unit_position = (x + roi_left (enemy_field_roi self),
                           y + roi_top (enemy_field_roi self)),
          health = 100, unit_type = ''unit''\<rparr> \<in> set (opponent_units info)"
    if "ndarray_size ?field \<noteq> 0" "(name, t) \<in> set (enemy_unit_templates self)
        \<and> find_template cv (Some ?field) (Some t) (85 / 100) = Inr (Some (x, y))" for name t x y
    using that remapped_units_member [of name t "enemy_unit_templates self" cv ?field x y
        "enemy_field_roi self"]
    by (simp add: units)
  show ?thesis
  proof (intro exI [of _ info] conjI impI allI)
    show "fst (analyze_battlefield cv self frame) = Inr info" by (rule info)
  next
    assume "ndarray_size ?hand \<noteq> 0"
    then show "cards_in_hand info
        = remapped_cards cv ?hand (hand_roi self) (card_templates self)"
      by (simp add: cards)
  next
    fix name t x y
    assume "ndarray_size ?hand \<noteq> 0" and "(name, t) \<in> set (card_templates self)
        \<and> find_template cv (Some ?hand) (Some t) (85 / 100) = Inr (Some (x, y))"
    then show "\<lparr>card_name = name,
          card_position = (x + roi_left (hand_roi self), y + roi_top (hand_roi self)),
          elixir_cost = 3, card_type = ''unit''\<rparr> \<in> set (cards_in_hand info)"
      by (rule c)
  next
    assume "ndarray_size ?field \<noteq> 0"
    then show "opponent_units info
        = remapped_units cv ?field (enemy_field_roi self) (enemy_unit_templates self)"
      by (simp add: units)
  next
    fix name t x y
    assume "ndarray_size ?field \<noteq> 0" and "(name, t) \<in> set (enemy_unit_templates self)
        \<and> find_template cv (Some ?field) (Some t) (85 / 100) = Inr (Some (x, y))"
    then show "\<lparr>unit_name = name,
          unit_position = (x + roi_left (enemy_field_roi self),
                           y + roi_top (enemy_field_roi self)),
          health = 100, unit_type = ''unit''\<rparr> \<in> set (opponent_units info)"
      by (rule u)
  qed
qed

lemma hand_frame_processed: "preprocess_image cv_ref hand_frame = Inr hand_processed"
  by (simp add: preprocess_image_def cvtColor_def GaussianBlur_def cv_ref_def hand_frame_def
      sparse_frame_def hand_processed_def)

lemma hand_vs_ok:
  "templates_ok (card_templates hand_vs)" "templates_ok (enemy_unit_templates hand_vs)"
  by (simp_all add: eval_more)

lemma hand_crops_nonempty:
  "ndarray_size (roi_crop hand_processed (hand_roi hand_vs)) \<noteq> 0"
  "ndarray_size (roi_crop hand_processed (enemy_field_roi hand_vs)) \<noteq> 0"
  by (simp_all add: eval_more hand_processed_def)

lemma hand_cards_value:
  "remapped_cards cv_ref (roi_crop hand_processed (hand_roi hand_vs))
      (hand_roi hand_vs) (card_templates hand_vs)
   = [\<lparr>card_name = ''Knight'', card_position = (51, 1050), elixir_cost = 3,
        card_type = ''unit''\<rparr>]"
  by (simp add: eval_more hand_processed_def)

lemma hand_units_value:
  "remapped_units cv_ref (roi_crop hand_processed (enemy_field_roi hand_vs))
      (enemy_field_roi hand_vs) (enemy_unit_templates hand_vs)
   = [\<lparr>unit_name = ''Giant'', unit_position = (1, 150), health = 100,
        unit_type = ''unit''\<rparr>]"
  by (simp add: eval_more hand_processed_def)

theorem analyze_remaps_witness:
  "preprocess_image cv_ref hand_frame = Inr hand_processed
   \<and> templates_ok (card_templates hand_vs) \<and> templates_ok (enemy_unit_templates hand_vs)
   \<and> ndarray_size (roi_crop hand_processed (hand_roi hand_vs)) \<noteq> 0
   \<and> ndarray_size (roi_crop hand_processed (enemy_field_roi hand_vs)) \<noteq> 0
   \<and> (\<exists>info. fst (analyze_battlefield cv_ref hand_vs hand_frame) = Inr info
     \<and> cards_in_hand info
         = [\<lparr>card_name = ''Knight'', card_position = (51, 1050), elixir_cost = 3,
              card_type = ''unit''\<rparr>]
     \<and> opponent_units info
         = [\<lparr>unit_name = ''Giant'', unit_position = (1, 150), health = 100,
              unit_type = ''unit''\<rparr>])"
proof -
  from analyze_remaps [OF hand_frame_processed hand_vs_ok] hand_crops_nonempty
  obtain info where "fst (analyze_battlefield cv_ref hand_vs hand_frame) = Inr info"
    and "cards_in_hand info
         = remapped_cards cv_ref (roi_crop hand_processed (hand_roi hand_vs)) (hand_roi hand_vs)
             (card_templates hand_vs)"
    and "opponent_units info
         = remapped_units cv_ref (roi_crop hand_processed (enemy_field_roi hand_vs))
             (enemy_field_roi hand_vs) (enemy_unit_templates hand_vs)"
    by blast
  then show ?thesis
    unfolding hand_cards_value hand_units_value
    using hand_frame_processed hand_vs_ok hand_crops_nonempty by blast
qed

text \<open>
  C8. When the hand crop of the preprocessed frame is empty, the analyzer returns a scene
  with no detected cards and raises nothing (the enemy-unit templates being non-empty
  images). For a 1 x 1 frame and the regions set at initialisation both crops are empty,
  and the scene has neither cards nor enemy units whatever the template stores hold.
\<close>

theorem analyze_empty_hand:
  "(preprocess_image cv frame = Inr processed
    \<and> ndarray_size (roi_crop processed (hand_roi self)) = 0
    \<and> templates_ok (enemy_unit_templates self)
    \<longrightarrow> (\<exists>info. fst (analyze_battlefield cv self frame) = Inr info \<and> cards_in_hand info = []))
   \<and> (shape0 frame1 = 1 \<and> shape1 frame1 = 1
    \<longrightarrow> (\<exists>info. fst (analyze_battlefield cv (VisionSystem_init cards ui enemy_units) frame1)
                  = Inr info
               \<and> cards_in_hand info = [] \<and> opponent_units info = []))"
proof (intro conjI impI)
  assume a: "preprocess_image cv frame = Inr processed
    \<and> ndarray_size (roi_crop processed (hand_roi self)) = 0
    \<and> templates_ok (enemy_unit_templates self)"
  then show "\<exists>info. fst (analyze_battlefield cv self frame) = Inr info \<and> cards_in_hand info = []"
    using analyze_battlefield_spec [of cv frame processed self] by auto
next
  let ?vs = "VisionSystem_init cards ui enemy_units"
  assume b: "shape0 frame1 = 1 \<and> shape1 frame1 = 1"
  then have "nonempty frame1" by (simp add: nonempty_def)
  then obtain g where g: "preprocess_image cv frame1 = Inr g"
    using preprocess_image_nonempty by blast
  then have sh: "shape0 g = 1" using preprocess_image_shape [OF g] b by simp
  have rois: "hand_roi ?vs = (50, 1050, 670, 1230)" "enemy_field_roi ?vs = (0, 150, 720, 625)"
    by (simp_all add: VisionSystem_init_def)
  show "\<exists>info. fst (analyze_battlefield cv ?vs frame1) = Inr info
               \<and> cards_in_hand info = [] \<and> opponent_units info = []"
    using analyze_battlefield_spec [of cv frame1 g ?vs] g tiny_frame_crops [OF sh]
    by (simp add: rois)
qed

lemma dummy_frame_processed: "preprocess_image cv_ref dummy_frame = Inr dummy_processed"
  by (simp add: preprocess_image_def cvtColor_def GaussianBlur_def cv_ref_def dummy_frame_def
      sparse_frame_def dummy_processed_def)

lemma dummy_frame_hand_crop:
  "ndarray_size (roi_crop dummy_processed (hand_roi example_vs)) = 0"
  by (simp add: eval_more dummy_processed_def)

lemma example_units_ok: "templates_ok (enemy_unit_templates example_vs)"
  by (simp add: eval_more)

lemma tiny_frame_shape: "shape0 (frame_rows [[0]]) = 1 \<and> shape1 (frame_rows [[0]]) = 1"
  by (simp add: frame_rows_def of_rows_def)

theorem analyze_empty_hand_witness:
  "preprocess_image cv_ref dummy_frame = Inr dummy_processed
   \<and> ndarray_size (roi_crop dummy_processed (hand_roi example_vs)) = 0
   \<and> templates_ok (enemy_unit_templates example_vs)
   \<and> (\<exists>info. fst (analyze_battlefield cv_ref example_vs dummy_frame) = Inr info
           \<and> cards_in_hand info = [])
   \<and> shape0 (frame_rows [[0]]) = 1 \<and> shape1 (frame_rows [[0]]) = 1
   \<and> (\<exists>info. fst (analyze_battlefield cv_ref
                      (VisionSystem_init example_cards example_ui example_units)
                      (frame_rows [[0]])) = Inr info
           \<and> cards_in_hand info = [] \<and> opponent_units info = [])"
  using analyze_empty_hand [of cv_ref dummy_frame dummy_processed example_vs "frame_rows [[0]]"
      example_cards example_ui example_units]
    dummy_frame_processed dummy_frame_hand_crop example_units_ok tiny_frame_shape
  by blast

section \<open>Coordinate Resolver\<close>

text \<open>
  C6. Whatever the title-casing of the runtime is, the resolver returns "not found", and
  raises nothing, when no frame has been stored, and when the card name, with underscores
  replaced by spaces and title-cased, has no template. Otherwise its result is the
  matcher's result on the whole preprocessed latest frame (same extents as the frame) at
  threshold 0.8. Before any frame is captured, the resolver returns "not found" for
  "fireball".
\<close>

theorem get_card_coordinates_soft:
  "(latest_screenshot self = None \<longrightarrow> get_card_coordinates cv title self name = Inr None)
   \<and> (map_of (card_templates self) (title (str_replace (CHR ''_'') (CHR '' '') name)) = None
        \<longrightarrow> get_card_coordinates cv title self name = Inr None)
   \<and> (latest_screenshot self = Some shot
        \<and> map_of (card_templates self) (title (str_replace (CHR ''_'') (CHR '' '') name))
            = Some t
        \<and> preprocess_image cv shot = Inr screen_gray
        \<longrightarrow> shape0 screen_gray = shape0 shot \<and> shape1 screen_gray = shape1 shot
            \<and> get_card_coordinates cv title self name
                = find_template cv (Some screen_gray) (Some t) (8 / 10))
   \<and> get_card_coordinates cv title (VisionSystem_init cards ui enemy_units) ''fireball''
       = Inr None"
proof -
  have "get_card_coordinates cv title self name
      = find_template cv (Some screen_gray) (Some t) (8 / 10)"
    if "latest_screenshot self = Some shot"
      "map_of (card_templates self) (title (str_replace (CHR ''_'') (CHR '' '') name)) = Some t"
      "preprocess_image cv shot = Inr screen_gray"
    using that
    by (cases "find_template cv (Some screen_gray) (Some t) (8 / 10)")
      (auto simp: get_card_coordinates_def Let_def split: option.splits)
  then show ?thesis
    using preprocess_image_shape [of cv shot screen_gray]
    by (auto simp: get_card_coordinates_def Let_def VisionSystem_init_def split: option.splits)
qed

text \<open>
  The concrete inputs use the ASCII title-casing: "fireball" with no frame stored,
  "ice_golem" with no template under "Ice Golem", and "mini_pekka", whose underscore
  becomes a space and whose template under "Mini Pekka" is found in the stored frame.
\<close>

lemma shot_vs_latest: "latest_screenshot shot_vs = Some both_frame"
  by (simp add: shot_vs_def)

lemma example_vs_latest: "latest_screenshot example_vs = None"
  by (simp add: example_vs_def VisionSystem_init_def)

lemma ascii_title_examples:
  "ascii_title (str_replace (CHR ''_'') (CHR '' '') ''ice_golem'') = ''Ice Golem''"
  "ascii_title (str_replace (CHR ''_'') (CHR '' '') ''mini_pekka'') = ''Mini Pekka''"
  "ascii_title (str_replace (CHR ''_'') (CHR '' '') ''MINI_pEKKA'') = ''Mini Pekka''"
  "ascii_title (str_replace (CHR ''_'') (CHR '' '') ''p.e.k.k.a'') = ''P.E.K.K.A''"
  by (simp_all add: str_defs)

lemma shot_vs_lookup:
  "map_of (card_templates shot_vs)
     (ascii_title (str_replace (CHR ''_'') (CHR '' '') ''ice_golem'')) = None"
  "map_of (card_templates shot_vs)
     (ascii_title (str_replace (CHR ''_'') (CHR '' '') ''mini_pekka''))
     = Some (gray_rows [[2, 0]])"
  by (simp_all add: ascii_title_examples shot_vs_def VisionSystem_init_def resolver_cards_def)

lemma both_frame_processed: "preprocess_image cv_ref both_frame = Inr both_processed"
  by (simp add: preprocess_image_def cvtColor_def GaussianBlur_def cv_ref_def both_frame_def
      frame_rows_def of_rows_def both_processed_def)

lemma both_frame_mini_pekka:
  "find_template cv_ref (Some both_processed) (Some (gray_rows [[2, 0]])) (8 / 10)
     = Inr (Some (2, 0))"
  by (simp add: eval_defs both_processed_def)

theorem get_card_coordinates_soft_witness:
  "latest_screenshot example_vs = None
   \<and> get_card_coordinates cv_ref ascii_title example_vs ''fireball'' = Inr None
   \<and> map_of (card_templates shot_vs)
        (ascii_title (str_replace (CHR ''_'') (CHR '' '') ''ice_golem'')) = None
   \<and> get_card_coordinates cv_ref ascii_title shot_vs ''ice_golem'' = Inr None
   \<and> latest_screenshot shot_vs = Some both_frame
   \<and> map_of (card_templates shot_vs)
        (ascii_title (str_replace (CHR ''_'') (CHR '' '') ''mini_pekka''))
       = Some (gray_rows [[2, 0]])
   \<and> preprocess_image cv_ref both_frame = Inr both_processed
   \<and> get_card_coordinates cv_ref ascii_title shot_vs ''mini_pekka'' = Inr (Some (2, 0))"
  using get_card_coordinates_soft [where self = example_vs and cv = cv_ref
      and title = ascii_title and name = "''fireball''"]
    get_card_coordinates_soft [where self = shot_vs and cv = cv_ref and title = ascii_title
      and name = "''ice_golem''"]
    get_card_coordinates_soft [where self = shot_vs and cv = cv_ref and title = ascii_title
      and name = "''mini_pekka''" and shot = both_frame and t = "gray_rows [[2, 0]]"
      and screen_gray = both_processed]
    example_vs_latest shot_vs_latest shot_vs_lookup both_frame_processed both_frame_mini_pekka
  by simp

end
